theory Spec2Isabelle
  imports Main
begin

section \<open>Errors and responses\<close>

text \<open>
  A handler either returns a body (\<open>c.json(...)\<close>, \<open>c.body(null, 200)\<close>) or throws.
  \<open>app.onError\<close> of \<open>main.ts\<close> answers an \<open>HTTPException\<close> with its own status and
  every other error with 500.
\<close>

datatype error = HTTPException nat string | PostgresError string | TypeError string

fun error_status :: "error \<Rightarrow> nat" where
  "error_status (HTTPException s m) = s"
| "error_status (PostgresError m) = 500"
| "error_status (TypeError m) = 500"

fun status :: "error + 'a \<Rightarrow> nat" where
  "status (Inl e) = error_status e"
| "status (Inr b) = 200"

section \<open>The entity store\<close>

text \<open>
  The tables of the schema, one record per table; a field is named after the alias the
  queries give its table (\<open>t.name\<close> is \<open>t_name\<close>, \<open>i.access\<close> is \<open>i_access\<close>). A table
  is the list of its rows in insertion order. The \<open>SERIAL\<close> columns draw from a
  sequence kept beside the table. The \<open>created_at\<close> timestamps are left out.
\<close>

record user =
  u_id :: string
  u_name :: string
  u_email :: string
  u_role :: string
  u_image_url :: string

record tag =
  t_id :: int
  t_name :: string
  t_upvotes :: int
  t_downvotes :: int

record user_group =
  g_id :: int
  g_title :: string
  g_description :: string
  g_user_id :: "string list"
  g_likes :: int

record idea =
  i_id :: int
  i_title :: string
  i_content :: string
  i_user_id :: string
  i_files_url :: "string list"
  i_access :: string
  i_upvotes :: int
  i_downvotes :: int

record feedback =
  f_id :: int
  f_idea_id :: int
  f_user_id :: string
  f_content :: string
  f_files_url :: "string list"
  f_feedback_links :: "int list"
  f_user_tag :: "string option"
  f_upvotes :: int
  f_downvotes :: int

record store =
  users :: "user list"
  tags :: "tag list"
  tags_id_seq :: int
  users_pinned_tags :: "(string \<times> int) list"
  user_groups :: "user_group list"
  user_groups_id_seq :: int
  ideas :: "idea list"
  ideas_id_seq :: int
  ideas_tags :: "(int \<times> int) list"
  feedbacks :: "feedback list"
  feedbacks_id_seq :: int
  ideas_feedbacks :: "(int \<times> int) list"

text \<open>
  An \<open>INTEGER\<close> column holds 32 bits; the store refuses a statement that computes a
  number outside the range.
\<close>

definition int4_range :: "int \<Rightarrow> bool" where
  "int4_range n = (- 2147483648 \<le> n \<and> n \<le> 2147483647)"

definition int4 :: "int \<Rightarrow> error + int" where
  "int4 n = (if int4_range n then Inr n else Inl (PostgresError ''integer out of range''))"

text \<open>
  \<open>UPDATE tbl SET ... WHERE P RETURNING *\<close>: the new table and the rows returned. The
  statement is atomic: one row that cannot be written fails all of it.
\<close>

fun sql_update :: "('r \<Rightarrow> bool) \<Rightarrow> ('r \<Rightarrow> error + 'r) \<Rightarrow> 'r list \<Rightarrow> error + ('r list \<times> 'r list)" where
  "sql_update P f [] = Inr ([], [])"
| "sql_update P f (r # rs) =
     (if P r then
        (case f r of
           Inl e \<Rightarrow> Inl e
         | Inr r' \<Rightarrow>
             (case sql_update P f rs of
                Inl e \<Rightarrow> Inl e
              | Inr (tbl, ret) \<Rightarrow> Inr (r' # tbl, r' # ret)))
      else
        (case sql_update P f rs of
           Inl e \<Rightarrow> Inl e
         | Inr (tbl, ret) \<Rightarrow> Inr (r # tbl, ret)))"

text \<open>The decimal numeral of a natural number.\<close>

fun index_key :: "nat \<Rightarrow> string" where
  "index_key n =
     (if n < 10 then [char_of (48 + n)]
      else index_key (n div 10) @ [char_of (48 + n mod 10)])"

declare index_key.simps [simp del]

section \<open>Tags (routes/tags.ts)\<close>

definition set_t_upvotes :: "int \<Rightarrow> tag \<Rightarrow> error + tag" where
  "set_t_upvotes d t = (case int4 (t_upvotes t + d) of Inl e \<Rightarrow> Inl e | Inr v \<Rightarrow> Inr (t\<lparr>t_upvotes := v\<rparr>))"

definition set_t_downvotes :: "int \<Rightarrow> tag \<Rightarrow> error + tag" where
  "set_t_downvotes d t = (case int4 (t_downvotes t + d) of Inl e \<Rightarrow> Inl e | Inr v \<Rightarrow> Inr (t\<lparr>t_downvotes := v\<rparr>))"

text \<open>
  \<open>GET /tags\<close>: \<open>SELECT name FROM tags\<close>. A statement without \<open>ORDER BY\<close> promises no
  order of its rows, so the body of a listing is the set of its rows.
\<close>

definition get_tags :: "store \<Rightarrow> (error + string set) \<times> store" where
  "get_tags st = (Inr (set (map t_name (tags st))), st)"

text \<open>\<open>GET /tags/:name\<close>.\<close>

definition get_tags_name :: "string \<Rightarrow> store \<Rightarrow> (error + tag) \<times> store" where
  "get_tags_name nm st =
     (case filter (\<lambda>t. t_name t = nm) (tags st) of
        [] \<Rightarrow> (Inl (HTTPException 404 ''Tag not found''), st)
      | r # rs \<Rightarrow> (Inr r, st))"

text \<open>
  The four vote routes on a tag differ in the column and the sign only:
  \<open>UPDATE tags SET c = c \<plusminus> 1 WHERE name = ... RETURNING *\<close>, then 404 when no row came back.
\<close>

definition tags_vote :: "(tag \<Rightarrow> error + tag) \<Rightarrow> string \<Rightarrow> store \<Rightarrow> (error + unit) \<times> store" where
  "tags_vote f nm st =
     (case sql_update (\<lambda>t. t_name t = nm) f (tags st) of
        Inl e \<Rightarrow> (Inl e, st)
      | Inr (tbl, rows) \<Rightarrow>
          (if rows = [] then (Inl (HTTPException 404 ''Tag not found''), st\<lparr>tags := tbl\<rparr>)
           else (Inr (), st\<lparr>tags := tbl\<rparr>)))"

definition post_tags_up :: "string \<Rightarrow> store \<Rightarrow> (error + unit) \<times> store" where
  "post_tags_up = tags_vote (set_t_upvotes 1)"

definition post_tags_down :: "string \<Rightarrow> store \<Rightarrow> (error + unit) \<times> store" where
  "post_tags_down = tags_vote (set_t_downvotes 1)"

definition delete_tags_up :: "string \<Rightarrow> store \<Rightarrow> (error + unit) \<times> store" where
  "delete_tags_up = tags_vote (set_t_upvotes (- 1))"

definition delete_tags_down :: "string \<Rightarrow> store \<Rightarrow> (error + unit) \<times> store" where
  "delete_tags_down = tags_vote (set_t_downvotes (- 1))"

section \<open>Ideas (routes/ideas.ts)\<close>

text \<open>\<open>rows[0]\<close> of a result: \<open>undefined\<close> when no row came back.\<close>

fun row0 :: "'a list \<Rightarrow> 'a option" where
  "row0 [] = None"
| "row0 (r # rs) = Some r"

subsection \<open>The aggregation query\<close>

text \<open>\<open>xs LEFT JOIN ys ON cond\<close>: a row of \<open>xs\<close> without a partner is kept, beside \<open>NULL\<close>.\<close>

definition left_join :: "('a \<Rightarrow> 'b \<Rightarrow> bool) \<Rightarrow> 'a list \<Rightarrow> 'b list \<Rightarrow> ('a \<times> 'b option) list" where
  "left_join cond xs ys =
     concat (map (\<lambda>x. case filter (cond x) ys of
                          [] \<Rightarrow> [(x, None)]
                        | m # ms \<Rightarrow> map (\<lambda>y. (x, Some y)) (m # ms)) xs)"

text \<open>\<open>GROUP BY\<close>: one group per distinct key, holding the values of its rows in order.\<close>

fun group_by :: "('k \<times> 'v) list \<Rightarrow> ('k \<times> 'v list) list" where
  "group_by [] = []"
| "group_by (r # rs) =
     (fst r, snd r # map snd (filter (\<lambda>x. fst x = fst r) rs))
       # group_by (filter (\<lambda>x. fst x \<noteq> fst r) rs)"

text \<open>
  \<open>ARRAY_AGG\<close> is \<open>NULL\<close> only over no rows at all; over the rows of a group it is the
  array of their values, \<open>NULL\<close>s included. \<open>COALESCE\<close> takes its second argument only
  for a first argument that is \<open>NULL\<close>.
\<close>

fun array_agg :: "'a list \<Rightarrow> 'a list option" where
  "array_agg [] = None"
| "array_agg (x # xs) = Some (x # xs)"

fun coalesce :: "'a option \<Rightarrow> 'a \<Rightarrow> 'a" where
  "coalesce None d = d"
| "coalesce (Some x) d = x"

text \<open>
  \<open>FROM ideas i LEFT JOIN ideas_tags it ON i.id = it.idea_id LEFT JOIN tags t ON it.tag_id = t.id\<close>,
  reduced to the columns the query reads: the idea and \<open>t.name\<close>.
\<close>

definition ideas_join :: "store \<Rightarrow> (idea \<times> string option) list" where
  "ideas_join st =
     map (\<lambda>r. (fst (fst r), map_option t_name (snd r)))
       (left_join (\<lambda>r t. case snd r of None \<Rightarrow> False | Some it \<Rightarrow> snd it = t_id t)
          (left_join (\<lambda>i it. i_id i = fst it) (ideas st) (ideas_tags st))
          (tags st))"

text \<open>
  \<open>SELECT i.*, COALESCE(ARRAY_AGG(t.name), ARRAY[]::VARCHAR[]) AS tags ... WHERE w
  GROUP BY i.id, i.title, ...\<close>: a row of the answer is an idea and its \<open>tags\<close> array.
\<close>

definition ideas_agg :: "(idea \<times> string option \<Rightarrow> bool) \<Rightarrow> store \<Rightarrow> (idea \<times> string option list) list" where
  "ideas_agg w st =
     map (\<lambda>g. (fst g, coalesce (array_agg (snd g)) []))
       (group_by (filter w (ideas_join st)))"

subsection \<open>\<open>GET /ideas\<close>\<close>

record ideas_query =
  q_sort_by :: "string option"
  q_filter :: "string option"
  q_access :: "string option"

text \<open>An optional string in a condition: \<open>undefined\<close> and \<open>""\<close> are falsy.\<close>

fun truthy :: "string option \<Rightarrow> bool" where
  "truthy None = False"
| "truthy (Some s) = (s \<noteq> [])"

definition startsWith :: "string \<Rightarrow> string \<Rightarrow> bool" where
  "startsWith s p = (take (length p) s = p)"

text \<open>
  The three fragments of the handler. \<open>None\<close> is the empty fragment \<open>sql``\<close>; \<open>Some v\<close>
  is the fragment with \<open>v\<close> in its slot: \<open>ORDER BY i.${v}\<close>, \<open>WHERE t.name = ${v}\<close>, and
  \<open>(i.access = ${v} OR i.access = 'public')\<close> after \<open>AND\<close> when there is a filter
  fragment and after \<open>WHERE\<close> when there is none.
\<close>

definition sort_by_sql :: "ideas_query \<Rightarrow> string option" where
  "sort_by_sql q = (if truthy (q_sort_by q) then q_sort_by q else None)"

definition filter_sql :: "ideas_query \<Rightarrow> string option" where
  "filter_sql q = (if truthy (q_filter q) then q_filter q else None)"

definition access_sql :: "ideas_query \<Rightarrow> string option" where
  "access_sql q =
     (case q_access q of
        None \<Rightarrow> None
      | Some a \<Rightarrow> (if startsWith a ''private:'' \<or> startsWith a ''group:'' then Some a else None))"

text \<open>The \<open>WHERE\<close> clause the two fragments make, on a row of the join.\<close>

definition ideas_where :: "string option \<Rightarrow> string option \<Rightarrow> idea \<times> string option \<Rightarrow> bool" where
  "ideas_where fl ac r =
     ((case fl of None \<Rightarrow> True | Some n \<Rightarrow> snd r = Some n) \<and>
      (case ac of None \<Rightarrow> True | Some a \<Rightarrow> i_access (fst r) = a \<or> i_access (fst r) = ''public''))"

text \<open>
  A string in the slot of a statement or of a fragment is sent as a parameter of the
  statement, \<open>$1\<close>, \<open>$2\<close>, ... in the order of the slots, never as text of it. The
  \<open>ORDER BY\<close> fragment is therefore \<open>ORDER BY i.$n\<close>, which the store refuses: a
  parameter is not a column name.
\<close>

definition syntax_error_at :: "nat \<Rightarrow> error" where
  "syntax_error_at n = PostgresError (''syntax error at or near $'' @ index_key n)"

text \<open>
  An array of the store as the SQL client hands it to the handler: the client reads
  an element \<open>NULL\<close> of a text array as the string \<open>NULL\<close>.
\<close>

definition pg_array :: "string option list \<Rightarrow> string list" where
  "pg_array ns = map (\<lambda>n. case n of None \<Rightarrow> ''NULL'' | Some s \<Rightarrow> s) ns"

text \<open>
  The handler. The parameters of the statement are those of the filter and access
  fragments and then that of the \<open>ORDER BY\<close> fragment. Without that fragment the rows
  come in an order the store chooses: the body is their set.
\<close>

definition get_ideas :: "ideas_query \<Rightarrow> store \<Rightarrow> (error + (idea \<times> string list) set) \<times> store" where
  "get_ideas q st =
     (let rows = ideas_agg (ideas_where (filter_sql q) (access_sql q)) st in
      case sort_by_sql q of
        None \<Rightarrow> (Inr (set (map (\<lambda>r. (fst r, pg_array (snd r))) rows)), st)
      | Some s \<Rightarrow>
          (Inl (syntax_error_at
                  (length (filter (\<lambda>f. f \<noteq> None) [filter_sql q, access_sql q]) + 1)), st))"

subsection \<open>\<open>GET /ideas/:id\<close>, \<open>DELETE /ideas/:id\<close> and the votes\<close>

definition get_ideas_id :: "int \<Rightarrow> store \<Rightarrow> (error + (idea \<times> string list) option) \<times> store" where
  "get_ideas_id n st =
     (Inr (row0 (map (\<lambda>r. (fst r, pg_array (snd r))) (ideas_agg (\<lambda>r. i_id (fst r) = n) st))), st)"

text \<open>
  \<open>DELETE FROM ideas WHERE id = ... RETURNING *\<close>. The foreign keys of \<open>ideas_tags\<close>,
  \<open>feedbacks\<close> and \<open>ideas_feedbacks\<close> cascade from a deleted idea, and those of
  \<open>ideas_feedbacks\<close> from a deleted feedback.
\<close>

definition delete_ideas_id :: "int \<Rightarrow> store \<Rightarrow> (error + idea option) \<times> store" where
  "delete_ideas_id n st =
     (case filter (\<lambda>i. i_id i = n) (ideas st) of
        [] \<Rightarrow> (Inr None, st)
      | r # rs \<Rightarrow>
          (let gone = map f_id (filter (\<lambda>f. f_idea_id f = n) (feedbacks st)) in
           (Inr (Some r),
            st\<lparr>ideas := filter (\<lambda>i. i_id i \<noteq> n) (ideas st),
               ideas_tags := filter (\<lambda>it. fst it \<noteq> n) (ideas_tags st),
               feedbacks := filter (\<lambda>f. f_idea_id f \<noteq> n) (feedbacks st),
               ideas_feedbacks :=
                 filter (\<lambda>p. fst p \<noteq> n \<and> snd p \<notin> set gone) (ideas_feedbacks st)\<rparr>)))"

definition set_i_upvotes :: "int \<Rightarrow> idea \<Rightarrow> error + idea" where
  "set_i_upvotes d i = (case int4 (i_upvotes i + d) of Inl e \<Rightarrow> Inl e | Inr v \<Rightarrow> Inr (i\<lparr>i_upvotes := v\<rparr>))"

definition set_i_downvotes :: "int \<Rightarrow> idea \<Rightarrow> error + idea" where
  "set_i_downvotes d i = (case int4 (i_downvotes i + d) of Inl e \<Rightarrow> Inl e | Inr v \<Rightarrow> Inr (i\<lparr>i_downvotes := v\<rparr>))"

text \<open>
  The four vote routes on an idea:
  \<open>UPDATE ideas SET c = c \<plusminus> 1 WHERE id = ... RETURNING *\<close>, answered with \<open>rows[0]\<close>.
\<close>

definition ideas_vote :: "(idea \<Rightarrow> error + idea) \<Rightarrow> int \<Rightarrow> store \<Rightarrow> (error + idea option) \<times> store" where
  "ideas_vote f n st =
     (case sql_update (\<lambda>i. i_id i = n) f (ideas st) of
        Inl e \<Rightarrow> (Inl e, st)
      | Inr (tbl, rows) \<Rightarrow> (Inr (row0 rows), st\<lparr>ideas := tbl\<rparr>))"

definition post_ideas_up :: "int \<Rightarrow> store \<Rightarrow> (error + idea option) \<times> store" where
  "post_ideas_up = ideas_vote (set_i_upvotes 1)"

definition post_ideas_down :: "int \<Rightarrow> store \<Rightarrow> (error + idea option) \<times> store" where
  "post_ideas_down = ideas_vote (set_i_downvotes 1)"

definition delete_ideas_up :: "int \<Rightarrow> store \<Rightarrow> (error + idea option) \<times> store" where
  "delete_ideas_up = ideas_vote (set_i_upvotes (- 1))"

definition delete_ideas_down :: "int \<Rightarrow> store \<Rightarrow> (error + idea option) \<times> store" where
  "delete_ideas_down = ideas_vote (set_i_downvotes (- 1))"

subsection \<open>\<open>POST /ideas\<close>\<close>

record ideas_body =
  b_title :: string
  b_content :: string
  b_user_id :: string
  b_files_url :: "string list"
  b_access :: string
  b_tags :: "string list"

text \<open>
  \<open>INSERT INTO tags (name) VALUES (..), (..) ON CONFLICT (name) DO NOTHING\<close>, a row at a
  time: the table and the sequence after it. A candidate draws its \<open>id\<close> from the
  sequence before the conflict on \<open>name\<close> is looked for, so a skipped candidate uses a
  number up too; a number the sequence has drawn is not given back when the statement fails.
\<close>

fun insert_tags :: "string list \<Rightarrow> tag list \<Rightarrow> int \<Rightarrow> (error + tag list) \<times> int" where
  "insert_tags [] tbl s = (Inr tbl, s)"
| "insert_tags (n # ns) tbl s =
     (if n \<in> set (map t_name tbl) then insert_tags ns tbl (s + 1)
      else if s \<in> set (map t_id tbl) then
        (Inl (PostgresError ''duplicate key value violates unique constraint tags_pkey''), s + 1)
      else insert_tags ns (tbl @ [\<lparr>t_id = s, t_name = n, t_upvotes = 0, t_downvotes = 0\<rparr>]) (s + 1))"

text \<open>
  \<open>INSERT INTO ideas (title, content, user_id, files_url, access) VALUES (...) RETURNING *\<close>:
  the counters take their default 0; the owner must be a user.
\<close>

definition insert_idea :: "ideas_body \<Rightarrow> store \<Rightarrow> (error + idea) \<times> store" where
  "insert_idea b st =
     (let s = ideas_id_seq st;
          st1 = st\<lparr>ideas_id_seq := s + 1\<rparr>;
          r = \<lparr>i_id = s, i_title = b_title b, i_content = b_content b, i_user_id = b_user_id b,
               i_files_url = b_files_url b, i_access = b_access b, i_upvotes = 0, i_downvotes = 0\<rparr>
      in if s \<in> set (map i_id (ideas st)) then
           (Inl (PostgresError ''duplicate key value violates unique constraint ideas_pkey''), st1)
         else if b_user_id b \<notin> set (map u_id (users st)) then
           (Inl (PostgresError ''insert on table ideas violates foreign key constraint ideas_user_id_fkey''), st1)
         else (Inr r, st1\<lparr>ideas := ideas st @ [r]\<rparr>))"

text \<open>
  \<open>INSERT INTO ideas_tags (idea_id, tag_id) VALUES ...\<close> with no conflict clause: a pair
  that is there already, or that names no idea or no tag, fails the statement. The
  lists \<open>is\<close> and \<open>ts\<close> are the ids the foreign keys may refer to.
\<close>

fun insert_ideas_tags :: "int list \<Rightarrow> int list \<Rightarrow> (int \<times> int) list \<Rightarrow> (int \<times> int) list \<Rightarrow> error + (int \<times> int) list" where
  "insert_ideas_tags is ts [] tbl = Inr tbl"
| "insert_ideas_tags is ts (p # ps) tbl =
     (if p \<in> set tbl then
        Inl (PostgresError ''duplicate key value violates unique constraint ideas_tags_pkey'')
      else if fst p \<notin> set is \<or> snd p \<notin> set ts then
        Inl (PostgresError ''insert on table ideas_tags violates foreign key constraint'')
      else insert_ideas_tags is ts ps (tbl @ [p]))"

text \<open>
  The handler: four statements, each committed on its own. A list of no rows has no
  \<open>VALUES\<close> to insert and the SQL client throws on it; \<open>!rows2[0]?.id\<close> also holds for
  the id 0.
\<close>

definition post_ideas :: "ideas_body \<Rightarrow> store \<Rightarrow> (error + idea \<times> string list) \<times> store" where
  "post_ideas b st =
     (if b_tags b = [] then (Inl (TypeError ''Cannot convert undefined or null to object''), st)
      else
        (case insert_tags (b_tags b) (tags st) (tags_id_seq st) of
           (Inl e, s) \<Rightarrow> (Inl e, st\<lparr>tags_id_seq := s\<rparr>)
         | (Inr tbl, s) \<Rightarrow>
             (let st1 = st\<lparr>tags := tbl, tags_id_seq := s\<rparr>;
                  rows1 = map t_id (filter (\<lambda>t. t_name t \<in> set (b_tags b)) (tags st1))
              in case insert_idea b st1 of
                   (Inl e, st2) \<Rightarrow> (Inl e, st2)
                 | (Inr r, st2) \<Rightarrow>
                     (if i_id r = 0 then (Inl (HTTPException 400 ''Failed to create idea''), st2)
                      else if rows1 = [] then
                        (Inl (TypeError ''Cannot convert undefined or null to object''), st2)
                      else
                        (case insert_ideas_tags (map i_id (ideas st2)) (map t_id (tags st2))
                                (map (\<lambda>k. (i_id r, k)) rows1) (ideas_tags st2) of
                           Inl e \<Rightarrow> (Inl e, st2)
                         | Inr jt \<Rightarrow> (Inr (r, b_tags b), st2\<lparr>ideas_tags := jt\<rparr>))))))"

subsection \<open>\<open>POST /ideas/:id/:tag\<close>\<close>

text \<open>
  \<open>INSERT INTO ideas_tags VALUES (id, (SELECT id FROM tags WHERE name = tag)) RETURNING *\<close>:
  the subquery is \<open>NULL\<close> for an unknown name, which the primary key refuses.
\<close>

definition post_ideas_tag :: "int \<Rightarrow> string \<Rightarrow> store \<Rightarrow> (error + unit) \<times> store" where
  "post_ideas_tag n tg st =
     (case filter (\<lambda>t. t_name t = tg) (tags st) of
        [] \<Rightarrow> (Inl (PostgresError ''null value in column tag_id violates not-null constraint''), st)
      | [t] \<Rightarrow>
          (case insert_ideas_tags (map i_id (ideas st)) (map t_id (tags st)) [(n, t_id t)] (ideas_tags st) of
             Inl e \<Rightarrow> (Inl e, st)
           | Inr jt \<Rightarrow> (Inr (), st\<lparr>ideas_tags := jt\<rparr>))
      | t # t' # ts \<Rightarrow>
          (Inl (PostgresError ''more than one row returned by a subquery used as an expression''), st))"

section \<open>Users (routes/users.ts)\<close>

subsection \<open>The aggregation query\<close>

definition users_join :: "store \<Rightarrow> (user \<times> string option) list" where
  "users_join st =
     map (\<lambda>r. (fst (fst r), map_option t_name (snd r)))
       (left_join (\<lambda>r t. case snd r of None \<Rightarrow> False | Some p \<Rightarrow> snd p = t_id t)
          (left_join (\<lambda>u p. u_id u = fst p) (users st) (users_pinned_tags st))
          (tags st))"

definition users_agg :: "(user \<times> string option \<Rightarrow> bool) \<Rightarrow> store \<Rightarrow> (user \<times> string option list) list" where
  "users_agg w st =
     map (\<lambda>g. (fst g, coalesce (array_agg (snd g)) []))
       (group_by (filter w (users_join st)))"

text \<open>\<open>GET /users\<close>.\<close>

definition get_users :: "store \<Rightarrow> (error + (user \<times> string list) set) \<times> store" where
  "get_users st = (Inr (set (map (\<lambda>r. (fst r, pg_array (snd r))) (users_agg (\<lambda>r. True) st))), st)"

subsection \<open>\<open>POST\<close>, \<open>PUT\<close> and \<open>DELETE\<close> of a user\<close>

definition post_users :: "user \<Rightarrow> store \<Rightarrow> (error + user option) \<times> store" where
  "post_users u st =
     (if u_id u \<in> set (map u_id (users st)) then
        (Inl (PostgresError ''duplicate key value violates unique constraint users_pkey''), st)
      else (Inr (Some u), st\<lparr>users := users st @ [u]\<rparr>))"

definition put_users_id :: "string \<Rightarrow> user \<Rightarrow> store \<Rightarrow> (error + user) \<times> store" where
  "put_users_id n b st =
     (case sql_update (\<lambda>u. u_id u = n)
             (\<lambda>u. Inr (u\<lparr>u_name := u_name b, u_email := u_email b, u_role := u_role b,
                          u_image_url := u_image_url b\<rparr>)) (users st) of
        Inl e \<Rightarrow> (Inl e, st)
      | Inr (tbl, rows) \<Rightarrow>
          (case rows of
             [] \<Rightarrow> (Inl (HTTPException 404 ''User not found''), st\<lparr>users := tbl\<rparr>)
           | r # rs \<Rightarrow> (Inr r, st\<lparr>users := tbl\<rparr>)))"

text \<open>
  \<open>DELETE FROM users WHERE id = ... RETURNING *\<close>; the deletion cascades to the user's
  pinned tags, ideas and feedbacks, and on from the ideas and feedbacks that go.
\<close>

definition delete_users_id :: "string \<Rightarrow> store \<Rightarrow> (error + unit) \<times> store" where
  "delete_users_id n st =
     (if filter (\<lambda>u. u_id u = n) (users st) = [] then
        (Inl (HTTPException 404 ''User not found''), st)
      else
        (let gone_ideas = map i_id (filter (\<lambda>i. i_user_id i = n) (ideas st));
             gone_fb = map f_id (filter (\<lambda>f. f_user_id f = n \<or> f_idea_id f \<in> set gone_ideas) (feedbacks st))
         in (Inr (),
             st\<lparr>users := filter (\<lambda>u. u_id u \<noteq> n) (users st),
                users_pinned_tags := filter (\<lambda>p. fst p \<noteq> n) (users_pinned_tags st),
                ideas := filter (\<lambda>i. i_user_id i \<noteq> n) (ideas st),
                ideas_tags := filter (\<lambda>p. fst p \<notin> set gone_ideas) (ideas_tags st),
                feedbacks := filter (\<lambda>f. f_user_id f \<noteq> n \<and> f_idea_id f \<notin> set gone_ideas) (feedbacks st),
                ideas_feedbacks :=
                  filter (\<lambda>p. fst p \<notin> set gone_ideas \<and> snd p \<notin> set gone_fb) (ideas_feedbacks st)\<rparr>)))"

subsection \<open>\<open>GET /users/:id\<close>\<close>

text \<open>
  The handler reads a property of the \<open>pinned_tags\<close> array, so the values of the
  runtime that the expression \<open>Object(rows[0]?.pinned_tags).items ?? []\<close> can meet are
  modelled: an array of strings and \<open>null\<close>s, the properties of an array (its
  indices, \<open>length\<close>, and the methods it inherits), \<open>undefined\<close> for any other name.
  The same values are the request bodies and parameters the validators read; a number
  is an integer here.
\<close>

datatype jsval =
  JUndefined | JNull | JBool bool | JString string | JNumber int | JArray "jsval list"
  | JObject "(string \<times> jsval) list" | JFunction string

definition array_prototype :: "string list" where
  "array_prototype =
     [''at'', ''concat'', ''constructor'', ''copyWithin'', ''entries'', ''every'', ''fill'',
      ''filter'', ''find'', ''findIndex'', ''findLast'', ''findLastIndex'', ''flat'',
      ''flatMap'', ''forEach'', ''includes'', ''indexOf'', ''join'', ''keys'',
      ''lastIndexOf'', ''map'', ''pop'', ''push'', ''reduce'', ''reduceRight'', ''reverse'',
      ''shift'', ''slice'', ''some'', ''sort'', ''splice'', ''toLocaleString'',
      ''toReversed'', ''toSorted'', ''toSpliced'', ''toString'', ''unshift'', ''values'',
      ''with'', ''hasOwnProperty'', ''isPrototypeOf'', ''propertyIsEnumerable'', ''valueOf'']"

text \<open>\<open>xs[k]\<close> or \<open>xs.k\<close> on an array \<open>xs\<close>; \<open>Object(xs)\<close> is \<open>xs\<close> itself.\<close>

definition array_member :: "jsval list \<Rightarrow> string \<Rightarrow> jsval" where
  "array_member xs k =
     (if k = ''length'' then JNumber (int (length xs))
      else
        (case filter (\<lambda>n. index_key n = k) [0..<length xs] of
           n # ns \<Rightarrow> xs ! n
         | [] \<Rightarrow> (if k \<in> set array_prototype then JFunction k else JUndefined)))"

text \<open>\<open>v ?? d\<close>.\<close>

fun nullish :: "jsval \<Rightarrow> jsval \<Rightarrow> jsval" where
  "nullish JUndefined d = d"
| "nullish JNull d = d"
| "nullish v d = v"

text \<open>The array of strings the SQL client hands over, as a value of the runtime.\<close>

definition js_array :: "string option list \<Rightarrow> jsval list" where
  "js_array ns = map JString (pg_array ns)"

definition get_users_id :: "string \<Rightarrow> store \<Rightarrow> (error + user \<times> jsval) \<times> store" where
  "get_users_id n st =
     (case users_agg (\<lambda>r. u_id (fst r) = n) st of
        [] \<Rightarrow> (Inl (HTTPException 404 ''User not found''), st)
      | r # rs \<Rightarrow>
          (Inr (fst r, nullish (array_member (js_array (snd r)) ''items'') (JArray [])), st))"

subsection \<open>\<open>POST /user/:user_id/:tag\<close> and \<open>DELETE /user/:user_id/:tag\<close>\<close>

text \<open>
  One statement. Its parts all read the tables as they were before it:
  \<^item> \<open>inserted_tag\<close>: \<open>INSERT INTO tags (name) VALUES (tag) ON CONFLICT DO NOTHING RETURNING id\<close>;
  \<^item> \<open>old\<close>: \<open>(SELECT id FROM tags WHERE name = tag LIMIT 1)\<close>;
  \<^item> \<open>linked\<close>: the \<open>EXISTS\<close> under \<open>WHERE NOT\<close>, a row of \<open>users_pinned_tags\<close> with this
    user and \<open>tag_id = old\<close>;
  \<^item> the row inserted into \<open>users_pinned_tags\<close> unless \<open>linked\<close>:
    \<open>(user_id, COALESCE(inserted_tag, old))\<close>.
  No row returned makes the handler throw 404.
\<close>

definition post_user_tag :: "string \<Rightarrow> string \<Rightarrow> store \<Rightarrow> (error + unit) \<times> store" where
  "post_user_tag uid tg st =
     (let s = tags_id_seq st;
          st1 = st\<lparr>tags_id_seq := s + 1\<rparr>;
          conflict = (tg \<in> set (map t_name (tags st)) \<or> s \<in> set (map t_id (tags st)));
          inserted_tag = (if conflict then None else Some s);
          tags' = (if conflict then tags st
                   else tags st @ [\<lparr>t_id = s, t_name = tg, t_upvotes = 0, t_downvotes = 0\<rparr>]);
          old = row0 (map t_id (filter (\<lambda>t. t_name t = tg) (tags st)));
          linked = (case old of None \<Rightarrow> False | Some k \<Rightarrow> (uid, k) \<in> set (users_pinned_tags st))
      in if linked then
           (Inl (HTTPException 404 ''Either user or tag not found''), st1\<lparr>tags := tags'\<rparr>)
         else
           (case (case inserted_tag of Some k \<Rightarrow> Some k | None \<Rightarrow> old) of
              None \<Rightarrow>
                (Inl (PostgresError ''null value in column tag_id violates not-null constraint''), st1)
            | Some k \<Rightarrow>
                (if (uid, k) \<in> set (users_pinned_tags st) then
                   (Inl (PostgresError ''duplicate key value violates unique constraint users_pinned_tags_pkey''), st1)
                 else if uid \<notin> set (map u_id (users st)) then
                   (Inl (PostgresError ''insert on table users_pinned_tags violates foreign key constraint''), st1)
                 else
                   (Inr (), st1\<lparr>tags := tags',
                                users_pinned_tags := users_pinned_tags st @ [(uid, k)]\<rparr>))))"

definition delete_user_tag :: "string \<Rightarrow> string \<Rightarrow> store \<Rightarrow> (error + unit) \<times> store" where
  "delete_user_tag uid tg st =
     (let old = row0 (map t_id (filter (\<lambda>t. t_name t = tg) (tags st)));
          hit = (\<lambda>p. fst p = uid \<and> old = Some (snd p))
      in if filter hit (users_pinned_tags st) = [] then
           (Inl (HTTPException 404 ''Either user or tag not found''), st)
         else (Inr (), st\<lparr>users_pinned_tags := filter (\<lambda>p. \<not> hit p) (users_pinned_tags st)\<rparr>))"

section \<open>Groups (routes/groups.ts)\<close>

text \<open>
  \<open>GET /groups\<close>: the handler makes the string \<open>sort_by_sql\<close>, empty without a sort
  key, and puts it in the slot of \<open>SELECT * FROM user_groups ${sort_by_sql}\<close>. The
  string is the parameter \<open>$1\<close> of the statement \<open>SELECT * FROM user_groups $1\<close>,
  which the store refuses whatever the string is.
\<close>

definition groups_sort_by_sql :: "string option \<Rightarrow> string" where
  "groups_sort_by_sql sort_by =
     (case sort_by of
        None \<Rightarrow> []
      | Some s \<Rightarrow> (if s \<noteq> [] then ''ORDER BY '' @ s else []))"

definition get_groups :: "string option \<Rightarrow> store \<Rightarrow> (error + user_group set) \<times> store" where
  "get_groups sort_by st =
     (let bound = [groups_sort_by_sql sort_by] in (Inl (syntax_error_at (length bound)), st))"

record groups_body =
  gb_title :: string
  gb_description :: string
  gb_user_id :: "string list"
  gb_likes :: int

definition post_groups :: "groups_body \<Rightarrow> store \<Rightarrow> (error + user_group option) \<times> store" where
  "post_groups b st =
     (let s = user_groups_id_seq st;
          st1 = st\<lparr>user_groups_id_seq := s + 1\<rparr>
      in case int4 (gb_likes b) of
           Inl e \<Rightarrow> (Inl e, st)
         | Inr l \<Rightarrow>
             (if s \<in> set (map g_id (user_groups st)) then
                (Inl (PostgresError ''duplicate key value violates unique constraint user_groups_pkey''), st1)
              else
                (let r = \<lparr>g_id = s, g_title = gb_title b, g_description = gb_description b,
                          g_user_id = gb_user_id b, g_likes = l\<rparr>
                 in (Inr (Some r), st1\<lparr>user_groups := user_groups st @ [r]\<rparr>))))"

definition get_groups_id :: "int \<Rightarrow> store \<Rightarrow> (error + user_group option) \<times> store" where
  "get_groups_id n st = (Inr (row0 (filter (\<lambda>g. g_id g = n) (user_groups st))), st)"

definition put_groups_id :: "int \<Rightarrow> groups_body \<Rightarrow> store \<Rightarrow> (error + user_group option) \<times> store" where
  "put_groups_id n b st =
     (case sql_update (\<lambda>g. g_id g = n)
             (\<lambda>g. case int4 (gb_likes b) of
                     Inl e \<Rightarrow> Inl e
                   | Inr l \<Rightarrow> Inr (g\<lparr>g_title := gb_title b, g_description := gb_description b,
                                      g_user_id := gb_user_id b, g_likes := l\<rparr>))
             (user_groups st) of
        Inl e \<Rightarrow> (Inl e, st)
      | Inr (tbl, rows) \<Rightarrow> (Inr (row0 rows), st\<lparr>user_groups := tbl\<rparr>))"

definition delete_groups_id :: "int \<Rightarrow> store \<Rightarrow> (error + unit) \<times> store" where
  "delete_groups_id n st = (Inr (), st\<lparr>user_groups := filter (\<lambda>g. g_id g \<noteq> n) (user_groups st)\<rparr>)"

text \<open>\<open>array_append(xs, x)\<close> and \<open>array_remove(xs, x)\<close> of the store.\<close>

definition array_append :: "'a list \<Rightarrow> 'a \<Rightarrow> 'a list" where
  "array_append xs x = xs @ [x]"

definition array_remove :: "'a list \<Rightarrow> 'a \<Rightarrow> 'a list" where
  "array_remove xs x = filter (\<lambda>y. y \<noteq> x) xs"

text \<open>
  \<open>POST /groups/:id/:user_id\<close> and \<open>DELETE /groups/:id/:user_id\<close>:
  \<open>UPDATE user_groups SET user_id = array_append(user_id, ...) WHERE id = ...\<close>, and the
  same with \<open>array_remove\<close>; the answer is an empty 200 either way.
\<close>

definition post_groups_user :: "int \<Rightarrow> string \<Rightarrow> store \<Rightarrow> (error + unit) \<times> store" where
  "post_groups_user n uid st =
     (Inr (), st\<lparr>user_groups :=
        map (\<lambda>g. if g_id g = n then g\<lparr>g_user_id := array_append (g_user_id g) uid\<rparr> else g)
          (user_groups st)\<rparr>)"

definition delete_groups_user :: "int \<Rightarrow> string \<Rightarrow> store \<Rightarrow> (error + unit) \<times> store" where
  "delete_groups_user n uid st =
     (Inr (), st\<lparr>user_groups :=
        map (\<lambda>g. if g_id g = n then g\<lparr>g_user_id := array_remove (g_user_id g) uid\<rparr> else g)
          (user_groups st)\<rparr>)"

section \<open>Feedbacks (routes/feedbacks.ts)\<close>

definition get_feedbacks :: "store \<Rightarrow> (error + feedback set) \<times> store" where
  "get_feedbacks st = (Inr (set (feedbacks st)), st)"

definition get_feedbacks_id :: "int \<Rightarrow> store \<Rightarrow> (error + feedback) \<times> store" where
  "get_feedbacks_id n st =
     (case filter (\<lambda>f. f_id f = n) (feedbacks st) of
        [] \<Rightarrow> (Inl (HTTPException 404 ''Feedback not found''), st)
      | r # rs \<Rightarrow> (Inr r, st))"

record feedback_body =
  fb_idea_id :: int
  fb_user_id :: string
  fb_content :: string
  fb_files_url :: "string list"
  fb_feedback_links :: "int list"
  fb_user_tag :: "string option"
  fb_upvotes :: int
  fb_downvotes :: int

text \<open>
  \<open>INSERT INTO feedbacks (...) VALUES (...) RETURNING *\<close>: the counters are the caller's
  numbers and must fit their columns, or the statement is refused before it runs; the
  idea and the user must exist.
\<close>

definition insert_feedback :: "feedback_body \<Rightarrow> store \<Rightarrow> (error + feedback) \<times> store" where
  "insert_feedback b st =
     (let s = feedbacks_id_seq st;
          st1 = st\<lparr>feedbacks_id_seq := s + 1\<rparr>
      in case int4 (fb_upvotes b) of
           Inl e \<Rightarrow> (Inl e, st)
         | Inr up \<Rightarrow>
             (case int4 (fb_downvotes b) of
                Inl e \<Rightarrow> (Inl e, st)
              | Inr down \<Rightarrow>
                  (let r = \<lparr>f_id = s, f_idea_id = fb_idea_id b, f_user_id = fb_user_id b,
                            f_content = fb_content b, f_files_url = fb_files_url b,
                            f_feedback_links = fb_feedback_links b, f_user_tag = fb_user_tag b,
                            f_upvotes = up, f_downvotes = down\<rparr>
                   in if s \<in> set (map f_id (feedbacks st)) then
                        (Inl (PostgresError ''duplicate key value violates unique constraint feedbacks_pkey''), st1)
                      else if fb_idea_id b \<notin> set (map i_id (ideas st))
                              \<or> fb_user_id b \<notin> set (map u_id (users st)) then
                        (Inl (PostgresError ''insert on table feedbacks violates foreign key constraint''), st1)
                      else (Inr r, st1\<lparr>feedbacks := feedbacks st @ [r]\<rparr>))))"

text \<open>
  \<open>POST /feedbacks\<close>: the row, then its pair in \<open>ideas_feedbacks\<close>, as two statements.
\<close>

definition post_feedbacks :: "feedback_body \<Rightarrow> store \<Rightarrow> (error + feedback) \<times> store" where
  "post_feedbacks b st =
     (case insert_feedback b st of
        (Inl e, st1) \<Rightarrow> (Inl e, st1)
      | (Inr r, st1) \<Rightarrow>
          (if (fb_idea_id b, f_id r) \<in> set (ideas_feedbacks st1) then
             (Inl (PostgresError ''duplicate key value violates unique constraint ideas_feedbacks_pkey''), st1)
           else (Inr r, st1\<lparr>ideas_feedbacks := ideas_feedbacks st1 @ [(fb_idea_id b, f_id r)]\<rparr>)))"

text \<open>
  \<open>DELETE /feedbacks/:id\<close>: \<open>DELETE FROM feedbacks WHERE id = ...\<close>, then
  \<open>DELETE FROM ideas_feedbacks WHERE feedback_id = ...\<close>.
\<close>

definition delete_feedbacks_id :: "int \<Rightarrow> store \<Rightarrow> (error + unit) \<times> store" where
  "delete_feedbacks_id n st =
     (Inr (), st\<lparr>feedbacks := filter (\<lambda>f. f_id f \<noteq> n) (feedbacks st),
                  ideas_feedbacks := filter (\<lambda>p. snd p \<noteq> n) (ideas_feedbacks st)\<rparr>)"

definition set_f_upvotes :: "int \<Rightarrow> feedback \<Rightarrow> error + feedback" where
  "set_f_upvotes d f = (case int4 (f_upvotes f + d) of Inl e \<Rightarrow> Inl e | Inr v \<Rightarrow> Inr (f\<lparr>f_upvotes := v\<rparr>))"

definition set_f_downvotes :: "int \<Rightarrow> feedback \<Rightarrow> error + feedback" where
  "set_f_downvotes d f = (case int4 (f_downvotes f + d) of Inl e \<Rightarrow> Inl e | Inr v \<Rightarrow> Inr (f\<lparr>f_downvotes := v\<rparr>))"

text \<open>
  The four vote routes on a feedback:
  \<open>UPDATE feedbacks SET c = c \<plusminus> 1 WHERE id = ...\<close>, answered with an empty 200.
\<close>

definition feedbacks_vote :: "(feedback \<Rightarrow> error + feedback) \<Rightarrow> int \<Rightarrow> store \<Rightarrow> (error + unit) \<times> store" where
  "feedbacks_vote f n st =
     (case sql_update (\<lambda>r. f_id r = n) f (feedbacks st) of
        Inl e \<Rightarrow> (Inl e, st)
      | Inr (tbl, rows) \<Rightarrow> (Inr (), st\<lparr>feedbacks := tbl\<rparr>))"

definition post_feedbacks_up :: "int \<Rightarrow> store \<Rightarrow> (error + unit) \<times> store" where
  "post_feedbacks_up = feedbacks_vote (set_f_upvotes 1)"

definition post_feedbacks_down :: "int \<Rightarrow> store \<Rightarrow> (error + unit) \<times> store" where
  "post_feedbacks_down = feedbacks_vote (set_f_downvotes 1)"

definition delete_feedbacks_up :: "int \<Rightarrow> store \<Rightarrow> (error + unit) \<times> store" where
  "delete_feedbacks_up = feedbacks_vote (set_f_upvotes (- 1))"

definition delete_feedbacks_down :: "int \<Rightarrow> store \<Rightarrow> (error + unit) \<times> store" where
  "delete_feedbacks_down = feedbacks_vote (set_f_downvotes (- 1))"
section \<open>Files of an idea (routes/ideas.ts) and the object store\<close>

text \<open>
  The object store maps a key to the bytes written under it. The world a request acts
  on is the entity store and the object store.
\<close>

record world =
  db :: store
  s3 :: "(string \<times> string) list"

definition on_db :: "(store \<Rightarrow> 'a \<times> store) \<Rightarrow> world \<Rightarrow> 'a \<times> world" where
  "on_db h w = (fst (h (db w)), w\<lparr>db := snd (h (db w))\<rparr>)"

text \<open>\<open>`${id}`\<close> for an integer.\<close>

definition number_string :: "int \<Rightarrow> string" where
  "number_string n = (if n < 0 then CHR ''-'' # index_key (nat (- n)) else index_key (nat n))"

definition file_name :: "int \<Rightarrow> string \<Rightarrow> string" where
  "file_name n nm = number_string n @ ''/'' @ nm"

definition file_url :: "string \<Rightarrow> string \<Rightarrow> string" where
  "file_url bucket fn = ''https://'' @ bucket @ ''.fly.storage.tigris.dev/'' @ fn"

text \<open>
  \<open>POST /ideas/file/:id\<close>: the uploaded file, a name and its bytes, is \<open>body.file\<close>,
  which no schema checks; without it \<open>file.name\<close> throws. The object is written first,
  then the URL is appended to the idea's list.
\<close>

definition post_ideas_file :: "string \<Rightarrow> int \<Rightarrow> (string \<times> string) option \<Rightarrow> world \<Rightarrow> (error + idea option) \<times> world" where
  "post_ideas_file bucket n file w =
     (case file of
        None \<Rightarrow> (Inl (TypeError ''undefined is not an object''), w)
      | Some f \<Rightarrow>
          (let fn = file_name n (fst f);
               w1 = w\<lparr>s3 := (fn, snd f) # filter (\<lambda>p. fst p \<noteq> fn) (s3 w)\<rparr>
           in case sql_update (\<lambda>i. i_id i = n)
                     (\<lambda>i. Inr (i\<lparr>i_files_url := array_append (i_files_url i) (file_url bucket fn)\<rparr>))
                     (ideas (db w1)) of
                Inl e \<Rightarrow> (Inl e, w1)
              | Inr (tbl, rows) \<Rightarrow> (Inr (row0 rows), w1\<lparr>db := (db w1)\<lparr>ideas := tbl\<rparr>\<rparr>)))"

text \<open>\<open>DELETE /ideas/file/:id\<close>: the object is deleted, then the URL removed from the list.\<close>

definition delete_ideas_file :: "string \<Rightarrow> int \<Rightarrow> (string \<times> string) option \<Rightarrow> world \<Rightarrow> (error + idea option) \<times> world" where
  "delete_ideas_file bucket n file w =
     (case file of
        None \<Rightarrow> (Inl (TypeError ''undefined is not an object''), w)
      | Some f \<Rightarrow>
          (let fn = file_name n (fst f);
               w1 = w\<lparr>s3 := filter (\<lambda>p. fst p \<noteq> fn) (s3 w)\<rparr>
           in case sql_update (\<lambda>i. i_id i = n)
                     (\<lambda>i. Inr (i\<lparr>i_files_url := array_remove (i_files_url i) (file_url bucket fn)\<rparr>))
                     (ideas (db w1)) of
                Inl e \<Rightarrow> (Inl e, w1)
              | Inr (tbl, rows) \<Rightarrow> (Inr (row0 rows), w1\<lparr>db := (db w1)\<lparr>ideas := tbl\<rparr>\<rparr>)))"

section \<open>Request validation\<close>

text \<open>
  A schema is the test it makes of a value. \<open>z.object\<close> reads each of its keys from the
  object, \<open>undefined\<close> for a key that is not there, and ignores the other keys. The
  tests of \<open>z.string().url()\<close> and \<open>z.string().email()\<close> are parameters.
\<close>

type_synonym zod = "jsval \<Rightarrow> bool"

definition z_string :: zod where
  "z_string v = (case v of JString s \<Rightarrow> True | _ \<Rightarrow> False)"

definition z_string_where :: "(string \<Rightarrow> bool) \<Rightarrow> zod" where
  "z_string_where p v = (case v of JString s \<Rightarrow> p s | _ \<Rightarrow> False)"

definition z_number :: zod where
  "z_number v = (case v of JNumber n \<Rightarrow> True | _ \<Rightarrow> False)"

definition z_array :: "zod \<Rightarrow> zod" where
  "z_array s v = (case v of JArray xs \<Rightarrow> list_all s xs | _ \<Rightarrow> False)"

definition z_optional :: "zod \<Rightarrow> zod" where
  "z_optional s v = (v = JUndefined \<or> s v)"

definition z_nullable :: "zod \<Rightarrow> zod" where
  "z_nullable s v = (v = JNull \<or> s v)"

definition z_default :: "zod \<Rightarrow> zod" where
  "z_default s v = (v = JUndefined \<or> s v)"

definition js_prop :: "(string \<times> jsval) list \<Rightarrow> string \<Rightarrow> jsval" where
  "js_prop kvs k = (case map_of kvs k of None \<Rightarrow> JUndefined | Some v \<Rightarrow> v)"

definition z_object :: "(string \<times> zod) list \<Rightarrow> zod" where
  "z_object shape v =
     (case v of
        JObject kvs \<Rightarrow> list_all (\<lambda>f. snd f (js_prop kvs (fst f))) shape
      | _ \<Rightarrow> False)"

text \<open>The schemas of the routes.\<close>

definition ideasSchemaWithTags :: "(string \<Rightarrow> bool) \<Rightarrow> zod" where
  "ideasSchemaWithTags url =
     z_object [(''id'', z_optional z_number), (''title'', z_string), (''content'', z_string),
               (''user_id'', z_string), (''files_url'', z_array (z_string_where url)),
               (''access'', z_string), (''upvotes'', z_number), (''downvotes'', z_number),
               (''tags'', z_array z_string)]"

definition feedbackSchema :: "(string \<Rightarrow> bool) \<Rightarrow> zod" where
  "feedbackSchema url =
     z_object [(''id'', z_number), (''idea_id'', z_number), (''user_id'', z_string),
               (''content'', z_string), (''files_url'', z_array (z_string_where url)),
               (''feedback_links'', z_array z_number), (''user_tag'', z_nullable z_string),
               (''upvotes'', z_number), (''downvotes'', z_number)]"

definition userSchema :: "(string \<Rightarrow> bool) \<Rightarrow> zod" where
  "userSchema email =
     z_object [(''id'', z_string), (''name'', z_string), (''email'', z_string_where email),
               (''role'', z_string), (''image_url'', z_string)]"

definition groupsSchema :: zod where
  "groupsSchema =
     z_object [(''id'', z_optional z_number), (''title'', z_string), (''description'', z_string),
               (''user_id'', z_array z_string), (''likes'', z_default z_number)]"

definition ideas_query_schema :: zod where
  "ideas_query_schema =
     z_object [(''sort_by'', z_optional z_string), (''filter'', z_optional z_string),
               (''access'', z_optional z_string)]"

definition groups_query_schema :: zod where
  "groups_query_schema = z_object [(''sort_by'', z_optional z_string)]"

text \<open>What a handler reads from a validated value.\<close>

definition js_field :: "jsval \<Rightarrow> string \<Rightarrow> jsval" where
  "js_field v k = (case v of JObject kvs \<Rightarrow> js_prop kvs k | _ \<Rightarrow> JUndefined)"

definition js_string :: "jsval \<Rightarrow> string" where
  "js_string v = (case v of JString s \<Rightarrow> s | _ \<Rightarrow> [])"

definition js_opt_string :: "jsval \<Rightarrow> string option" where
  "js_opt_string v = (case v of JString s \<Rightarrow> Some s | _ \<Rightarrow> None)"

definition js_number :: "jsval \<Rightarrow> int" where
  "js_number v = (case v of JNumber n \<Rightarrow> n | _ \<Rightarrow> 0)"

definition js_strings :: "jsval \<Rightarrow> string list" where
  "js_strings v = (case v of JArray xs \<Rightarrow> map js_string xs | _ \<Rightarrow> [])"

definition js_numbers :: "jsval \<Rightarrow> int list" where
  "js_numbers v = (case v of JArray xs \<Rightarrow> map js_number xs | _ \<Rightarrow> [])"

definition ideas_query_of :: "jsval \<Rightarrow> ideas_query" where
  "ideas_query_of v =
     \<lparr>q_sort_by = js_opt_string (js_field v ''sort_by''), q_filter = js_opt_string (js_field v ''filter''),
      q_access = js_opt_string (js_field v ''access'')\<rparr>"

definition ideas_body_of :: "jsval \<Rightarrow> ideas_body" where
  "ideas_body_of v =
     \<lparr>b_title = js_string (js_field v ''title''), b_content = js_string (js_field v ''content''),
      b_user_id = js_string (js_field v ''user_id''), b_files_url = js_strings (js_field v ''files_url''),
      b_access = js_string (js_field v ''access''), b_tags = js_strings (js_field v ''tags'')\<rparr>"

definition feedback_body_of :: "jsval \<Rightarrow> feedback_body" where
  "feedback_body_of v =
     \<lparr>fb_idea_id = js_number (js_field v ''idea_id''), fb_user_id = js_string (js_field v ''user_id''),
      fb_content = js_string (js_field v ''content''), fb_files_url = js_strings (js_field v ''files_url''),
      fb_feedback_links = js_numbers (js_field v ''feedback_links''),
      fb_user_tag = js_opt_string (js_field v ''user_tag''),
      fb_upvotes = js_number (js_field v ''upvotes''), fb_downvotes = js_number (js_field v ''downvotes'')\<rparr>"

definition user_of :: "jsval \<Rightarrow> user" where
  "user_of v =
     \<lparr>u_id = js_string (js_field v ''id''), u_name = js_string (js_field v ''name''),
      u_email = js_string (js_field v ''email''), u_role = js_string (js_field v ''role''),
      u_image_url = js_string (js_field v ''image_url'')\<rparr>"

definition groups_body_of :: "jsval \<Rightarrow> groups_body" where
  "groups_body_of v =
     \<lparr>gb_title = js_string (js_field v ''title''), gb_description = js_string (js_field v ''description''),
      gb_user_id = js_strings (js_field v ''user_id''),
      gb_likes = (case js_field v ''likes'' of JNumber n \<Rightarrow> n | _ \<Rightarrow> 0)\<rparr>"

section \<open>Routes\<close>

text \<open>
  A route is its validators, in the order they are registered, and then its handler.
  A validator whose schema refuses the value answers 400 itself and calls nothing
  after it.
\<close>

datatype 'b response = ValidationFailure | Handled "error + 'b"

fun response_status :: "'b response \<Rightarrow> nat" where
  "response_status ValidationFailure = 400"
| "response_status (Handled r) = status r"

definition zValidator :: "zod \<Rightarrow> jsval \<Rightarrow> ('w \<Rightarrow> 'b response \<times> 'w) \<Rightarrow> 'w \<Rightarrow> 'b response \<times> 'w" where
  "zValidator schema v next w = (if schema v then next w else (ValidationFailure, w))"

definition handler :: "('w \<Rightarrow> (error + 'b) \<times> 'w) \<Rightarrow> 'w \<Rightarrow> 'b response \<times> 'w" where
  "handler h w = (Handled (fst (h w)), snd (h w))"

definition route_get_ideas :: "jsval \<Rightarrow> world \<Rightarrow> (idea \<times> string list) set response \<times> world" where
  "route_get_ideas query =
     zValidator ideas_query_schema query (handler (on_db (get_ideas (ideas_query_of query))))"

definition route_post_ideas :: "(string \<Rightarrow> bool) \<Rightarrow> jsval \<Rightarrow> world \<Rightarrow> (idea \<times> string list) response \<times> world" where
  "route_post_ideas url json =
     zValidator (ideasSchemaWithTags url) json (handler (on_db (post_ideas (ideas_body_of json))))"

definition route_get_ideas_id :: "jsval \<Rightarrow> world \<Rightarrow> (idea \<times> string list) option response \<times> world" where
  "route_get_ideas_id param =
     zValidator (z_object [(''id'', z_number)]) param
       (handler (on_db (get_ideas_id (js_number (js_field param ''id'')))))"

definition route_post_ideas_up :: "jsval \<Rightarrow> world \<Rightarrow> idea option response \<times> world" where
  "route_post_ideas_up param =
     zValidator (z_object [(''id'', z_number)]) param
       (handler (on_db (post_ideas_up (js_number (js_field param ''id'')))))"

definition route_post_ideas_file :: "string \<Rightarrow> jsval \<Rightarrow> (string \<times> string) option \<Rightarrow> world \<Rightarrow> idea option response \<times> world" where
  "route_post_ideas_file bucket param file =
     zValidator (z_object [(''id'', z_number)]) param
       (handler (post_ideas_file bucket (js_number (js_field param ''id'')) file))"

definition route_delete_ideas_file :: "string \<Rightarrow> jsval \<Rightarrow> (string \<times> string) option \<Rightarrow> world \<Rightarrow> idea option response \<times> world" where
  "route_delete_ideas_file bucket param file =
     zValidator (z_object [(''id'', z_number)]) param
       (handler (delete_ideas_file bucket (js_number (js_field param ''id'')) file))"

definition route_post_ideas_tag :: "jsval \<Rightarrow> world \<Rightarrow> unit response \<times> world" where
  "route_post_ideas_tag param =
     zValidator (z_object [(''id'', z_number), (''tag'', z_string)]) param
       (handler (on_db (post_ideas_tag (js_number (js_field param ''id'')) (js_string (js_field param ''tag'')))))"

definition route_post_feedbacks :: "(string \<Rightarrow> bool) \<Rightarrow> jsval \<Rightarrow> world \<Rightarrow> feedback response \<times> world" where
  "route_post_feedbacks url json =
     zValidator (feedbackSchema url) json (handler (on_db (post_feedbacks (feedback_body_of json))))"

definition route_post_feedbacks_up :: "jsval \<Rightarrow> world \<Rightarrow> unit response \<times> world" where
  "route_post_feedbacks_up param =
     zValidator (z_object [(''id'', z_number)]) param
       (handler (on_db (post_feedbacks_up (js_number (js_field param ''id'')))))"

definition route_post_users :: "(string \<Rightarrow> bool) \<Rightarrow> jsval \<Rightarrow> world \<Rightarrow> user option response \<times> world" where
  "route_post_users email json =
     zValidator (userSchema email) json (handler (on_db (post_users (user_of json))))"

definition route_put_users_id :: "(string \<Rightarrow> bool) \<Rightarrow> jsval \<Rightarrow> jsval \<Rightarrow> world \<Rightarrow> user response \<times> world" where
  "route_put_users_id email param json =
     zValidator (z_object [(''id'', z_string)]) param
       (zValidator (userSchema email) json
          (handler (on_db (put_users_id (js_string (js_field param ''id'')) (user_of json)))))"

definition route_get_users_id :: "jsval \<Rightarrow> world \<Rightarrow> (user \<times> jsval) response \<times> world" where
  "route_get_users_id param =
     zValidator (z_object [(''id'', z_string)]) param
       (handler (on_db (get_users_id (js_string (js_field param ''id'')))))"

definition route_post_user_tag :: "jsval \<Rightarrow> world \<Rightarrow> unit response \<times> world" where
  "route_post_user_tag param =
     zValidator (z_object [(''user_id'', z_string), (''tag'', z_string)]) param
       (handler (on_db (post_user_tag (js_string (js_field param ''user_id'')) (js_string (js_field param ''tag'')))))"

definition route_get_groups :: "jsval \<Rightarrow> world \<Rightarrow> user_group set response \<times> world" where
  "route_get_groups query =
     zValidator groups_query_schema query
       (handler (on_db (get_groups (js_opt_string (js_field query ''sort_by'')))))"

definition route_post_groups :: "jsval \<Rightarrow> world \<Rightarrow> user_group option response \<times> world" where
  "route_post_groups json =
     zValidator groupsSchema json (handler (on_db (post_groups (groups_body_of json))))"

definition route_put_groups_id :: "jsval \<Rightarrow> jsval \<Rightarrow> world \<Rightarrow> user_group option response \<times> world" where
  "route_put_groups_id param json =
     zValidator (z_object [(''id'', z_number)]) param
       (zValidator groupsSchema json
          (handler (on_db (put_groups_id (js_number (js_field param ''id'')) (groups_body_of json)))))"

definition route_post_groups_user :: "jsval \<Rightarrow> world \<Rightarrow> unit response \<times> world" where
  "route_post_groups_user param =
     zValidator (z_object [(''id'', z_number), (''user_id'', z_string)]) param
       (handler (on_db (post_groups_user (js_number (js_field param ''id'')) (js_string (js_field param ''user_id'')))))"

definition route_post_tags_up :: "jsval \<Rightarrow> world \<Rightarrow> unit response \<times> world" where
  "route_post_tags_up param =
     zValidator (z_object [(''name'', z_string)]) param
       (handler (on_db (post_tags_up (js_string (js_field param ''name'')))))"

definition route_delete_ideas_id :: "jsval \<Rightarrow> world \<Rightarrow> idea option response \<times> world" where
  "route_delete_ideas_id param =
     zValidator (z_object [(''id'', z_number)]) param
       (handler (on_db (delete_ideas_id (js_number (js_field param ''id'')))))"

definition route_post_ideas_down :: "jsval \<Rightarrow> world \<Rightarrow> idea option response \<times> world" where
  "route_post_ideas_down param =
     zValidator (z_object [(''id'', z_number)]) param
       (handler (on_db (post_ideas_down (js_number (js_field param ''id'')))))"

definition route_delete_ideas_up :: "jsval \<Rightarrow> world \<Rightarrow> idea option response \<times> world" where
  "route_delete_ideas_up param =
     zValidator (z_object [(''id'', z_number)]) param
       (handler (on_db (delete_ideas_up (js_number (js_field param ''id'')))))"

definition route_delete_ideas_down :: "jsval \<Rightarrow> world \<Rightarrow> idea option response \<times> world" where
  "route_delete_ideas_down param =
     zValidator (z_object [(''id'', z_number)]) param
       (handler (on_db (delete_ideas_down (js_number (js_field param ''id'')))))"

definition route_get_feedbacks_id :: "jsval \<Rightarrow> world \<Rightarrow> feedback response \<times> world" where
  "route_get_feedbacks_id param =
     zValidator (z_object [(''id'', z_number)]) param
       (handler (on_db (get_feedbacks_id (js_number (js_field param ''id'')))))"

definition route_delete_feedbacks_id :: "jsval \<Rightarrow> world \<Rightarrow> unit response \<times> world" where
  "route_delete_feedbacks_id param =
     zValidator (z_object [(''id'', z_number)]) param
       (handler (on_db (delete_feedbacks_id (js_number (js_field param ''id'')))))"

definition route_post_feedbacks_down :: "jsval \<Rightarrow> world \<Rightarrow> unit response \<times> world" where
  "route_post_feedbacks_down param =
     zValidator (z_object [(''id'', z_number)]) param
       (handler (on_db (post_feedbacks_down (js_number (js_field param ''id'')))))"

definition route_delete_feedbacks_up :: "jsval \<Rightarrow> world \<Rightarrow> unit response \<times> world" where
  "route_delete_feedbacks_up param =
     zValidator (z_object [(''id'', z_number)]) param
       (handler (on_db (delete_feedbacks_up (js_number (js_field param ''id'')))))"

definition route_delete_feedbacks_down :: "jsval \<Rightarrow> world \<Rightarrow> unit response \<times> world" where
  "route_delete_feedbacks_down param =
     zValidator (z_object [(''id'', z_number)]) param
       (handler (on_db (delete_feedbacks_down (js_number (js_field param ''id'')))))"

definition route_get_groups_id :: "jsval \<Rightarrow> world \<Rightarrow> user_group option response \<times> world" where
  "route_get_groups_id param =
     zValidator (z_object [(''id'', z_number)]) param
       (handler (on_db (get_groups_id (js_number (js_field param ''id'')))))"

definition route_delete_groups_id :: "jsval \<Rightarrow> world \<Rightarrow> unit response \<times> world" where
  "route_delete_groups_id param =
     zValidator (z_object [(''id'', z_number)]) param
       (handler (on_db (delete_groups_id (js_number (js_field param ''id'')))))"

definition route_delete_groups_user :: "jsval \<Rightarrow> world \<Rightarrow> unit response \<times> world" where
  "route_delete_groups_user param =
     zValidator (z_object [(''id'', z_number), (''user_id'', z_string)]) param
       (handler (on_db (delete_groups_user (js_number (js_field param ''id'')) (js_string (js_field param ''user_id'')))))"

definition route_get_tags_name :: "jsval \<Rightarrow> world \<Rightarrow> tag response \<times> world" where
  "route_get_tags_name param =
     zValidator (z_object [(''name'', z_string)]) param
       (handler (on_db (get_tags_name (js_string (js_field param ''name'')))))"

definition route_post_tags_down :: "jsval \<Rightarrow> world \<Rightarrow> unit response \<times> world" where
  "route_post_tags_down param =
     zValidator (z_object [(''name'', z_string)]) param
       (handler (on_db (post_tags_down (js_string (js_field param ''name'')))))"

definition route_delete_tags_up :: "jsval \<Rightarrow> world \<Rightarrow> unit response \<times> world" where
  "route_delete_tags_up param =
     zValidator (z_object [(''name'', z_string)]) param
       (handler (on_db (delete_tags_up (js_string (js_field param ''name'')))))"

definition route_delete_tags_down :: "jsval \<Rightarrow> world \<Rightarrow> unit response \<times> world" where
  "route_delete_tags_down param =
     zValidator (z_object [(''name'', z_string)]) param
       (handler (on_db (delete_tags_down (js_string (js_field param ''name'')))))"

definition route_delete_users_id :: "jsval \<Rightarrow> world \<Rightarrow> unit response \<times> world" where
  "route_delete_users_id param =
     zValidator (z_object [(''id'', z_string)]) param
       (handler (on_db (delete_users_id (js_string (js_field param ''id'')))))"

definition route_delete_user_tag :: "jsval \<Rightarrow> world \<Rightarrow> unit response \<times> world" where
  "route_delete_user_tag param =
     zValidator (z_object [(''user_id'', z_string), (''tag'', z_string)]) param
       (handler (on_db (delete_user_tag (js_string (js_field param ''user_id'')) (js_string (js_field param ''tag'')))))"

text \<open>\<open>GET /users\<close> has no validator.\<close>

definition route_get_users :: "world \<Rightarrow> (user \<times> string list) set response \<times> world" where
  "route_get_users = handler (on_db get_users)"

section \<open>Requests\<close>

text \<open>
  What a request brings to its route. The path parameters (\<open>c.req.param()\<close>) are
  strings, all of them there; the query parameters are strings, each there or not; the
  body is any JSON value. The validators see them as they are: nothing turns the
  string of a path parameter into a number.
\<close>

definition path_params :: "(string \<times> string) list \<Rightarrow> jsval" where
  "path_params ps = JObject (map (\<lambda>p. (fst p, JString (snd p))) ps)"

definition query_params :: "(string \<times> string option) list \<Rightarrow> jsval" where
  "query_params qs =
     JObject (concat (map (\<lambda>q. case snd q of None \<Rightarrow> [] | Some v \<Rightarrow> [(fst q, JString v)]) qs))"

definition request_get_ideas ::
  "string option \<Rightarrow> string option \<Rightarrow> string option \<Rightarrow> world \<Rightarrow> (idea \<times> string list) set response \<times> world" where
  "request_get_ideas sort_by fl access =
     route_get_ideas (query_params [(''sort_by'', sort_by), (''filter'', fl), (''access'', access)])"


definition request_put_groups_id :: "string \<Rightarrow> jsval \<Rightarrow> world \<Rightarrow> user_group option response \<times> world" where
  "request_put_groups_id n json = route_put_groups_id (path_params [(''id'', n)]) json"

definition request_post_ideas_file :: "string \<Rightarrow> string \<Rightarrow> (string \<times> string) option \<Rightarrow> world \<Rightarrow> idea option response \<times> world" where
  "request_post_ideas_file bucket n upload = route_post_ideas_file bucket (path_params [(''id'', n)]) upload"

definition request_delete_ideas_file :: "string \<Rightarrow> string \<Rightarrow> (string \<times> string) option \<Rightarrow> world \<Rightarrow> idea option response \<times> world" where
  "request_delete_ideas_file bucket n upload = route_delete_ideas_file bucket (path_params [(''id'', n)]) upload"

definition request_get_ideas_id :: "string \<Rightarrow> world \<Rightarrow> (idea \<times> string list) option response \<times> world" where
  "request_get_ideas_id n = route_get_ideas_id (path_params [(''id'', n)])"

definition request_delete_ideas_id :: "string \<Rightarrow> world \<Rightarrow> idea option response \<times> world" where
  "request_delete_ideas_id n = route_delete_ideas_id (path_params [(''id'', n)])"

definition request_post_ideas_up :: "string \<Rightarrow> world \<Rightarrow> idea option response \<times> world" where
  "request_post_ideas_up n = route_post_ideas_up (path_params [(''id'', n)])"

definition request_post_ideas_down :: "string \<Rightarrow> world \<Rightarrow> idea option response \<times> world" where
  "request_post_ideas_down n = route_post_ideas_down (path_params [(''id'', n)])"

definition request_delete_ideas_up :: "string \<Rightarrow> world \<Rightarrow> idea option response \<times> world" where
  "request_delete_ideas_up n = route_delete_ideas_up (path_params [(''id'', n)])"

definition request_delete_ideas_down :: "string \<Rightarrow> world \<Rightarrow> idea option response \<times> world" where
  "request_delete_ideas_down n = route_delete_ideas_down (path_params [(''id'', n)])"

definition request_post_ideas_tag :: "string \<Rightarrow> string \<Rightarrow> world \<Rightarrow> unit response \<times> world" where
  "request_post_ideas_tag n m = route_post_ideas_tag (path_params [(''id'', n), (''tag'', m)])"

definition request_get_feedbacks_id :: "string \<Rightarrow> world \<Rightarrow> feedback response \<times> world" where
  "request_get_feedbacks_id n = route_get_feedbacks_id (path_params [(''id'', n)])"

definition request_delete_feedbacks_id :: "string \<Rightarrow> world \<Rightarrow> unit response \<times> world" where
  "request_delete_feedbacks_id n = route_delete_feedbacks_id (path_params [(''id'', n)])"

definition request_post_feedbacks_up :: "string \<Rightarrow> world \<Rightarrow> unit response \<times> world" where
  "request_post_feedbacks_up n = route_post_feedbacks_up (path_params [(''id'', n)])"

definition request_post_feedbacks_down :: "string \<Rightarrow> world \<Rightarrow> unit response \<times> world" where
  "request_post_feedbacks_down n = route_post_feedbacks_down (path_params [(''id'', n)])"

definition request_delete_feedbacks_up :: "string \<Rightarrow> world \<Rightarrow> unit response \<times> world" where
  "request_delete_feedbacks_up n = route_delete_feedbacks_up (path_params [(''id'', n)])"

definition request_delete_feedbacks_down :: "string \<Rightarrow> world \<Rightarrow> unit response \<times> world" where
  "request_delete_feedbacks_down n = route_delete_feedbacks_down (path_params [(''id'', n)])"

definition request_get_groups_id :: "string \<Rightarrow> world \<Rightarrow> user_group option response \<times> world" where
  "request_get_groups_id n = route_get_groups_id (path_params [(''id'', n)])"

definition request_delete_groups_id :: "string \<Rightarrow> world \<Rightarrow> unit response \<times> world" where
  "request_delete_groups_id n = route_delete_groups_id (path_params [(''id'', n)])"

definition request_post_groups_user :: "string \<Rightarrow> string \<Rightarrow> world \<Rightarrow> unit response \<times> world" where
  "request_post_groups_user n m = route_post_groups_user (path_params [(''id'', n), (''user_id'', m)])"

definition request_delete_groups_user :: "string \<Rightarrow> string \<Rightarrow> world \<Rightarrow> unit response \<times> world" where
  "request_delete_groups_user n m = route_delete_groups_user (path_params [(''id'', n), (''user_id'', m)])"

definition request_get_tags_name :: "string \<Rightarrow> world \<Rightarrow> tag response \<times> world" where
  "request_get_tags_name n = route_get_tags_name (path_params [(''name'', n)])"

definition request_post_tags_up :: "string \<Rightarrow> world \<Rightarrow> unit response \<times> world" where
  "request_post_tags_up n = route_post_tags_up (path_params [(''name'', n)])"

definition request_post_tags_down :: "string \<Rightarrow> world \<Rightarrow> unit response \<times> world" where
  "request_post_tags_down n = route_post_tags_down (path_params [(''name'', n)])"

definition request_delete_tags_up :: "string \<Rightarrow> world \<Rightarrow> unit response \<times> world" where
  "request_delete_tags_up n = route_delete_tags_up (path_params [(''name'', n)])"

definition request_delete_tags_down :: "string \<Rightarrow> world \<Rightarrow> unit response \<times> world" where
  "request_delete_tags_down n = route_delete_tags_down (path_params [(''name'', n)])"

definition request_get_users_id :: "string \<Rightarrow> world \<Rightarrow> (user \<times> jsval) response \<times> world" where
  "request_get_users_id n = route_get_users_id (path_params [(''id'', n)])"

definition request_delete_users_id :: "string \<Rightarrow> world \<Rightarrow> unit response \<times> world" where
  "request_delete_users_id n = route_delete_users_id (path_params [(''id'', n)])"

definition request_post_user_tag :: "string \<Rightarrow> string \<Rightarrow> world \<Rightarrow> unit response \<times> world" where
  "request_post_user_tag n m = route_post_user_tag (path_params [(''user_id'', n), (''tag'', m)])"

definition request_delete_user_tag :: "string \<Rightarrow> string \<Rightarrow> world \<Rightarrow> unit response \<times> world" where
  "request_delete_user_tag n m = route_delete_user_tag (path_params [(''user_id'', n), (''tag'', m)])"

section \<open>Example data\<close>

definition empty_store :: store where
  "empty_store =
     \<lparr>users = [], tags = [], tags_id_seq = 1, users_pinned_tags = [], user_groups = [],
      user_groups_id_seq = 1, ideas = [], ideas_id_seq = 1, ideas_tags = [], feedbacks = [],
      feedbacks_id_seq = 1, ideas_feedbacks = []\<rparr>"

definition user1 :: user where
  "user1 = \<lparr>u_id = ''1'', u_name = ''John Doe'', u_email = ''john.doe@example.com'',
             u_role = ''admin'', u_image_url = ''https://example.com/john.doe.jpg''\<rparr>"

definition idea1 :: idea where
  "idea1 = \<lparr>i_id = 1, i_title = ''T'', i_content = ''C'', i_user_id = ''1'', i_files_url = [],
             i_access = ''public'', i_upvotes = 0, i_downvotes = 0\<rparr>"

definition tag_x :: tag where
  "tag_x = \<lparr>t_id = 1, t_name = ''x'', t_upvotes = 0, t_downvotes = 0\<rparr>"

text \<open>One user, one tag, and one idea of that user that has no tag and no vote.\<close>

definition store1 :: store where
  "store1 = empty_store\<lparr>users := [user1], tags := [tag_x], tags_id_seq := 2,
                          ideas := [idea1], ideas_id_seq := 2\<rparr>"

text \<open>The store in which the user has pinned the tag.\<close>

definition store_pinned :: store where
  "store_pinned = store1\<lparr>users_pinned_tags := [(''1'', 1)]\<rparr>"

text \<open>A store with the user and nothing else.\<close>

definition store_user :: store where
  "store_user = empty_store\<lparr>users := [user1]\<rparr>"

text \<open>The store in which the tag has votes, and a body that names it beside a new tag.\<close>

definition store_voted :: store where
  "store_voted = store1\<lparr>tags := [tag_x\<lparr>t_upvotes := 3, t_downvotes := 1\<rparr>]\<rparr>"

definition body_xy :: ideas_body where
  "body_xy = \<lparr>b_title = ''T'', b_content = ''C'', b_user_id = ''1'', b_files_url = [],
               b_access = ''public'', b_tags = [''x'', ''y'']\<rparr>"

text \<open>Three ideas without tags: a public one, one of user 42 and one of user 99.\<close>

definition idea2 :: idea where
  "idea2 = idea1\<lparr>i_id := 2, i_access := ''private:42''\<rparr>"

definition idea3 :: idea where
  "idea3 = idea1\<lparr>i_id := 3, i_access := ''private:99''\<rparr>"

definition store_access :: store where
  "store_access = store1\<lparr>ideas := [idea1, idea2, idea3], ideas_id_seq := 4\<rparr>"


definition world1 :: world where
  "world1 = \<lparr>db = store1, s3 = []\<rparr>"

text \<open>The worlds of these stores, and a store with a group of one member.\<close>

definition world_user :: world where
  "world_user = \<lparr>db = store_user, s3 = []\<rparr>"

definition world_access :: world where
  "world_access = \<lparr>db = store_access, s3 = []\<rparr>"

definition group1 :: user_group where
  "group1 = \<lparr>g_id = 1, g_title = ''Group title'', g_description = ''Group description'',
             g_user_id = [''1''], g_likes = 0\<rparr>"

definition world_group :: world where
  "world_group = \<lparr>db = store1\<lparr>user_groups := [group1], user_groups_id_seq := 2\<rparr>, s3 = []\<rparr>"


section \<open>Updates\<close>

lemma sql_update_ok:
  "list_all (\<lambda>r. P r \<longrightarrow> (\<exists>r'. f r = Inr r')) rs \<Longrightarrow>
   sql_update P f rs =
     Inr (map (\<lambda>r. if P r then projr (f r) else r) rs, map (\<lambda>r. projr (f r)) (filter P rs))"
  by (induction rs) auto

lemma sql_update_vote:
  assumes f: "\<And>r. f r = (case int4 (c r + d) of Inl e \<Rightarrow> Inl e | Inr v \<Rightarrow> Inr (u v r))"
      and ok: "\<forall>r\<in>set rs. P r \<longrightarrow> int4_range (c r + d)"
  shows "sql_update P f rs =
    Inr (map (\<lambda>r. if P r then u (c r + d) r else r) rs, map (\<lambda>r. u (c r + d) r) (filter P rs))"
proof -
  have a: "list_all (\<lambda>r. P r \<longrightarrow> (\<exists>r'. f r = Inr r')) rs"
    using ok by (auto simp: list_all_iff f int4_def)
  have b: "map (\<lambda>r. if P r then projr (f r) else r) rs = map (\<lambda>r. if P r then u (c r + d) r else r) rs"
    using ok by (auto simp: f int4_def)
  have c: "map (\<lambda>r. projr (f r)) (filter P rs) = map (\<lambda>r. u (c r + d) r) (filter P rs)"
    using ok by (auto simp: f int4_def)
  show ?thesis
    unfolding sql_update_ok [OF a] b c by simp
qed

section \<open>Vote counters\<close>

lemma ideas_vote_up:
  assumes "\<forall>i\<in>set (ideas st). i_id i = n \<longrightarrow> int4_range (i_upvotes i + d)"
  shows "ideas_vote (set_i_upvotes d) n st =
     (Inr (row0 (map (\<lambda>i. i\<lparr>i_upvotes := i_upvotes i + d\<rparr>) (filter (\<lambda>i. i_id i = n) (ideas st)))),
      st\<lparr>ideas := map (\<lambda>i. if i_id i = n then i\<lparr>i_upvotes := i_upvotes i + d\<rparr> else i) (ideas st)\<rparr>)"
  unfolding ideas_vote_def
  by (subst sql_update_vote [where c = i_upvotes and d = d and u = "\<lambda>v i. i\<lparr>i_upvotes := v\<rparr>"])
     (use assms in \<open>simp_all add: set_i_upvotes_def\<close>)

lemma ideas_vote_down:
  assumes "\<forall>i\<in>set (ideas st). i_id i = n \<longrightarrow> int4_range (i_downvotes i + d)"
  shows "ideas_vote (set_i_downvotes d) n st =
     (Inr (row0 (map (\<lambda>i. i\<lparr>i_downvotes := i_downvotes i + d\<rparr>) (filter (\<lambda>i. i_id i = n) (ideas st)))),
      st\<lparr>ideas := map (\<lambda>i. if i_id i = n then i\<lparr>i_downvotes := i_downvotes i + d\<rparr> else i) (ideas st)\<rparr>)"
  unfolding ideas_vote_def
  by (subst sql_update_vote [where c = i_downvotes and d = d and u = "\<lambda>v i. i\<lparr>i_downvotes := v\<rparr>"])
     (use assms in \<open>simp_all add: set_i_downvotes_def\<close>)

lemma tags_vote_up:
  assumes "\<forall>t\<in>set (tags st). t_name t = nm \<longrightarrow> int4_range (t_upvotes t + d)"
  shows "tags_vote (set_t_upvotes d) nm st =
     (if filter (\<lambda>t. t_name t = nm) (tags st) = [] then Inl (HTTPException 404 ''Tag not found'')
      else Inr (),
      st\<lparr>tags := map (\<lambda>t. if t_name t = nm then t\<lparr>t_upvotes := t_upvotes t + d\<rparr> else t) (tags st)\<rparr>)"
  unfolding tags_vote_def
  by (subst sql_update_vote [where c = t_upvotes and d = d and u = "\<lambda>v t. t\<lparr>t_upvotes := v\<rparr>"])
     (use assms in \<open>simp_all add: set_t_upvotes_def\<close>)

lemma tags_vote_down:
  assumes "\<forall>t\<in>set (tags st). t_name t = nm \<longrightarrow> int4_range (t_downvotes t + d)"
  shows "tags_vote (set_t_downvotes d) nm st =
     (if filter (\<lambda>t. t_name t = nm) (tags st) = [] then Inl (HTTPException 404 ''Tag not found'')
      else Inr (),
      st\<lparr>tags := map (\<lambda>t. if t_name t = nm then t\<lparr>t_downvotes := t_downvotes t + d\<rparr> else t) (tags st)\<rparr>)"
  unfolding tags_vote_def
  by (subst sql_update_vote [where c = t_downvotes and d = d and u = "\<lambda>v t. t\<lparr>t_downvotes := v\<rparr>"])
     (use assms in \<open>simp_all add: set_t_downvotes_def\<close>)

lemma feedbacks_vote_up:
  assumes "\<forall>r\<in>set (feedbacks st). f_id r = n \<longrightarrow> int4_range (f_upvotes r + d)"
  shows "feedbacks_vote (set_f_upvotes d) n st =
     (Inr (), st\<lparr>feedbacks := map (\<lambda>r. if f_id r = n then r\<lparr>f_upvotes := f_upvotes r + d\<rparr> else r) (feedbacks st)\<rparr>)"
  unfolding feedbacks_vote_def
  by (subst sql_update_vote [where c = f_upvotes and d = d and u = "\<lambda>v r. r\<lparr>f_upvotes := v\<rparr>"])
     (use assms in \<open>simp_all add: set_f_upvotes_def\<close>)

lemma feedbacks_vote_down:
  assumes "\<forall>r\<in>set (feedbacks st). f_id r = n \<longrightarrow> int4_range (f_downvotes r + d)"
  shows "feedbacks_vote (set_f_downvotes d) n st =
     (Inr (), st\<lparr>feedbacks := map (\<lambda>r. if f_id r = n then r\<lparr>f_downvotes := f_downvotes r + d\<rparr> else r) (feedbacks st)\<rparr>)"
  unfolding feedbacks_vote_def
  by (subst sql_update_vote [where c = f_downvotes and d = d and u = "\<lambda>v r. r\<lparr>f_downvotes := v\<rparr>"])
     (use assms in \<open>simp_all add: set_f_downvotes_def\<close>)


section \<open>Requests\<close>

text \<open>A path parameter is a string, so a schema that wants the number \<open>id\<close> refuses it.\<close>

lemma id_param_refused:
  "\<not> z_object ((''id'', z_number) # shape) (path_params ((''id'', n) # ps))"
  by (simp add: z_object_def path_params_def js_prop_def z_number_def)

lemma string_params_valid:
  "z_object [(k, z_string)] (path_params [(k, n)])"
  "z_object [(k, z_string), (k', z_string)] (path_params [(k, n), (k', m)])"
  by (simp_all add: z_object_def path_params_def js_prop_def z_string_def)

lemma string_params_fields:
  "js_string (js_field (path_params [(k, n)]) k) = n"
  "js_string (js_field (path_params [(k, n), (k', m)]) k) = n"
  "k \<noteq> k' \<Longrightarrow> js_string (js_field (path_params [(k, n), (k', m)]) k') = m"
  by (simp_all add: path_params_def js_field_def js_prop_def js_string_def)

lemma query_params_valid:
  "ideas_query_schema (query_params [(''sort_by'', sort_by), (''filter'', fl), (''access'', access)])"
  "groups_query_schema (query_params [(''sort_by'', sort_by)])"
  by (auto simp: ideas_query_schema_def groups_query_schema_def query_params_def z_object_def
      z_optional_def z_string_def js_prop_def split: option.splits)

lemma ideas_query_of_params:
  "ideas_query_of (query_params [(''sort_by'', sort_by), (''filter'', fl), (''access'', access)])
     = \<lparr>q_sort_by = sort_by, q_filter = fl, q_access = access\<rparr>"
  by (simp add: ideas_query_of_def query_params_def js_field_def js_prop_def js_opt_string_def
      split: option.splits)

lemma groups_sort_by_of_params:
  "js_opt_string (js_field (query_params [(''sort_by'', sort_by)]) ''sort_by'') = sort_by"
  by (simp add: query_params_def js_field_def js_prop_def js_opt_string_def split: option.splits)

lemma request_get_ideas_handler:
  "request_get_ideas sort_by fl access w =
     (Handled (fst (get_ideas \<lparr>q_sort_by = sort_by, q_filter = fl, q_access = access\<rparr> (db w))), w)"
  by (simp add: request_get_ideas_def route_get_ideas_def zValidator_def handler_def on_db_def
      query_params_valid ideas_query_of_params get_ideas_def Let_def split: option.splits)


lemma syntax_error_at_1: "syntax_error_at 1 = PostgresError ''syntax error at or near $1''"
  by code_simp

lemma syntax_error_at_2: "syntax_error_at 2 = PostgresError ''syntax error at or near $2''"
  by code_simp

section \<open>Group members\<close>

lemma array_remove_removeAll: "array_remove xs x = removeAll x xs"
  by (induction xs) (auto simp: array_remove_def)

text \<open>
  The handler bodies behind the validator: adding appends the user id whether or not
  it is in the list, removing takes every occurrence out.
\<close>

lemma group_member_handlers:
  "fst (post_groups_user n u st) = Inr () \<and>
   fst (delete_groups_user n u st) = Inr () \<and>
   snd (post_groups_user n u (snd (post_groups_user n u st))) =
     st\<lparr>user_groups :=
          map (\<lambda>g. if g_id g = n then g\<lparr>g_user_id := g_user_id g @ [u, u]\<rparr> else g) (user_groups st)\<rparr> \<and>
   snd (delete_groups_user n u st) =
     st\<lparr>user_groups :=
          map (\<lambda>g. if g_id g = n then g\<lparr>g_user_id := removeAll u (g_user_id g)\<rparr> else g) (user_groups st)\<rparr>"
  by (simp add: post_groups_user_def delete_groups_user_def array_append_def array_remove_removeAll
      comp_def if_distrib cong: if_cong)

text \<open>
  C10, on the code. Every \<open>POST /groups/:id/:user_id\<close> and every
  \<open>DELETE /groups/:id/:user_id\<close> is answered 400 by the validator of the path
  parameters, whatever the id and the user, and leaves the world as it was: the
  schema wants \<open>id\<close> a number and the path parameter is a string. Adding the user
  \<open>2\<close> to group 1 twice leaves the members of the group as they were.
\<close>

theorem group_member_requests_refused:
  "request_post_groups_user n u w = (ValidationFailure, w) \<and>
   request_delete_groups_user n u w = (ValidationFailure, w) \<and>
   response_status (fst (request_post_groups_user n u w)) = 400 \<and>
   response_status (fst (request_delete_groups_user n u w)) = 400 \<and>
   snd (request_post_groups_user ''1'' ''2'' (snd (request_post_groups_user ''1'' ''2'' world_group)))
     = world_group \<and>
   map g_user_id (user_groups (db world_group)) = [[''1'']]"
  by (simp add: request_post_groups_user_def request_delete_groups_user_def
      route_post_groups_user_def route_delete_groups_user_def zValidator_def id_param_refused
      world_group_def group1_def)

section \<open>Votes as requests\<close>

lemma request_tags_vote:
  "request_post_tags_up nm w = (Handled (fst (post_tags_up nm (db w))), w\<lparr>db := snd (post_tags_up nm (db w))\<rparr>)"
  "request_post_tags_down nm w = (Handled (fst (post_tags_down nm (db w))), w\<lparr>db := snd (post_tags_down nm (db w))\<rparr>)"
  "request_delete_tags_up nm w = (Handled (fst (delete_tags_up nm (db w))), w\<lparr>db := snd (delete_tags_up nm (db w))\<rparr>)"
  "request_delete_tags_down nm w = (Handled (fst (delete_tags_down nm (db w))), w\<lparr>db := snd (delete_tags_down nm (db w))\<rparr>)"
  by (simp_all add: request_post_tags_up_def request_post_tags_down_def request_delete_tags_up_def
      request_delete_tags_down_def route_post_tags_up_def route_post_tags_down_def
      route_delete_tags_up_def route_delete_tags_down_def zValidator_def handler_def on_db_def
      string_params_valid string_params_fields)

text \<open>
  The votes on a tag reach their handler: within the range of the column a vote moves
  one counter of the tag by one.
\<close>

lemma tag_vote_requests:
  assumes "\<forall>t\<in>set (tags (db w)). t_name t = nm \<longrightarrow> int4_range (t_upvotes t + 1)"
  shows "snd (request_post_tags_up nm w) =
     w\<lparr>db := (db w)\<lparr>tags := map (\<lambda>t. if t_name t = nm then t\<lparr>t_upvotes := t_upvotes t + 1\<rparr> else t)
                                (tags (db w))\<rparr>\<rparr>"
  using tags_vote_up [OF assms] by (simp add: request_tags_vote post_tags_up_def)

text \<open>
  C6, on the code. Every vote on an idea and every vote on a feedback is answered 400
  by the validator of the path parameter, whatever the id, and leaves the world as it
  was. After \<open>POST /ideas/up/1\<close> and \<open>POST /ideas/down/1\<close> the idea, which had no
  vote, still has none, and \<open>DELETE /ideas/up/1\<close> leaves its counter at 0. The same
  requests on the tag \<open>x\<close>, which had no vote, give it 1 and 1, and \<open>-1\<close>.
\<close>

theorem vote_requests_refused:
  "request_post_ideas_up n w = (ValidationFailure, w) \<and>
   request_post_ideas_down n w = (ValidationFailure, w) \<and>
   request_delete_ideas_up n w = (ValidationFailure, w) \<and>
   request_delete_ideas_down n w = (ValidationFailure, w) \<and>
   request_post_feedbacks_up n w = (ValidationFailure, w) \<and>
   request_post_feedbacks_down n w = (ValidationFailure, w) \<and>
   request_delete_feedbacks_up n w = (ValidationFailure, w) \<and>
   request_delete_feedbacks_down n w = (ValidationFailure, w) \<and>
   response_status (fst (request_post_ideas_up n w)) = 400 \<and>
   ideas (db (snd (request_post_ideas_down ''1'' (snd (request_post_ideas_up ''1'' world1))))) = [idea1] \<and>
   i_upvotes idea1 = 0 \<and> i_downvotes idea1 = 0 \<and>
   ideas (db (snd (request_delete_ideas_up ''1'' world1))) = [idea1] \<and>
   tags (db (snd (request_post_tags_down ''x'' (snd (request_post_tags_up ''x'' world1))))) =
     [tag_x\<lparr>t_upvotes := 1, t_downvotes := 1\<rparr>] \<and>
   tags (db (snd (request_delete_tags_up ''x'' world1))) = [tag_x\<lparr>t_upvotes := - 1\<rparr>]"
  by (simp add: request_post_ideas_up_def request_post_ideas_down_def request_delete_ideas_up_def
      request_delete_ideas_down_def request_post_feedbacks_up_def request_post_feedbacks_down_def
      request_delete_feedbacks_up_def request_delete_feedbacks_down_def
      route_post_ideas_up_def route_post_ideas_down_def route_delete_ideas_up_def
      route_delete_ideas_down_def route_post_feedbacks_up_def route_post_feedbacks_down_def
      route_delete_feedbacks_up_def route_delete_feedbacks_down_def zValidator_def
      id_param_refused request_tags_vote post_tags_up_def post_tags_down_def
      delete_tags_up_def tags_vote_def set_t_upvotes_def set_t_downvotes_def int4_def
      int4_range_def world1_def store1_def empty_store_def
      idea1_def tag_x_def)

section \<open>The aggregation query\<close>

lemma group_by_keys: "fst ` set (group_by xs) = fst ` set xs"
proof (induction xs rule: group_by.induct)
  case 1
  then show ?case by simp
next
  case (2 r rs)
  have "fst ` set (filter (\<lambda>x. fst x \<noteq> fst r) rs) = fst ` set rs - {fst r}"
    by auto
  with 2 show ?case by auto
qed

lemma group_by_Nil_iff: "group_by xs = [] \<longleftrightarrow> xs = []"
  by (cases xs) simp_all

lemma left_join_keys: "fst ` set (left_join c xs ys) = set xs"
  by (induction xs) (auto simp: left_join_def image_Un split: list.splits)

lemma users_join_keys: "fst ` set (users_join st) = set (users st)"
proof -
  have "fst ` set (users_join st) =
    fst ` fst ` set (left_join (\<lambda>r t. case snd r of None \<Rightarrow> False | Some p \<Rightarrow> snd p = t_id t)
          (left_join (\<lambda>u p. u_id u = fst p) (users st) (users_pinned_tags st)) (tags st))"
    by (simp add: users_join_def image_image)
  then show ?thesis
    by (simp only: left_join_keys)
qed

lemma ideas_join_keys: "fst ` set (ideas_join st) = set (ideas st)"
proof -
  have "fst ` set (ideas_join st) =
    fst ` fst ` set (left_join (\<lambda>r t. case snd r of None \<Rightarrow> False | Some it \<Rightarrow> snd it = t_id t)
          (left_join (\<lambda>i it. i_id i = fst it) (ideas st) (ideas_tags st)) (tags st))"
    by (simp add: ideas_join_def image_image)
  then show ?thesis
    by (simp only: left_join_keys)
qed

lemma users_agg_keys: "fst ` set (users_agg w st) = fst ` set (filter w (users_join st))"
proof -
  have "fst ` set (users_agg w st) = fst ` set (group_by (filter w (users_join st)))"
    by (simp add: users_agg_def image_image)
  then show ?thesis
    by (simp only: group_by_keys)
qed

lemma ideas_agg_keys: "fst ` set (ideas_agg w st) = fst ` set (filter w (ideas_join st))"
proof -
  have "fst ` set (ideas_agg w st) = fst ` set (group_by (filter w (ideas_join st)))"
    by (simp add: ideas_agg_def image_image)
  then show ?thesis
    by (simp only: group_by_keys)
qed


section \<open>\<open>GET /users/:id\<close>\<close>

lemma last_index_key: "last (index_key n) = char_of (48 + n mod 10)"
  by (subst index_key.simps) simp

lemma index_key_not_items: "index_key n \<noteq> ''items''"
proof
  assume "index_key n = ''items''"
  then have "last (index_key n) = CHR ''s''" by simp
  then have "(char_of (48 + n mod 10) :: char) = CHR ''s''"
    by (simp only: last_index_key)
  then have "of_char (char_of (48 + n mod 10) :: char) = (of_char (CHR ''s'') :: nat)"
    by simp
  moreover have "48 + n mod 10 < 256" by simp
  ultimately have "48 + n mod 10 = (115 :: nat)"
    by (simp add: of_char_of)
  moreover have "n mod 10 < 10" by simp
  ultimately show False by linarith
qed

lemma array_member_items: "array_member xs ''items'' = JUndefined"
  by (simp add: array_member_def filter_empty_conv index_key_not_items array_prototype_def)

lemma users_agg_id:
  "users_agg (\<lambda>r. u_id (fst r) = n) st = [] \<longleftrightarrow> (\<forall>u\<in>set (users st). u_id u \<noteq> n)"
proof -
  have "users_agg (\<lambda>r. u_id (fst r) = n) st = []
      \<longleftrightarrow> fst ` set (filter (\<lambda>r. u_id (fst r) = n) (users_join st)) = {}"
    unfolding users_agg_keys [symmetric] by simp
  also have "\<dots> \<longleftrightarrow> (\<forall>u\<in>fst ` set (users_join st). u_id u \<noteq> n)"
    by auto
  finally show ?thesis
    by (simp only: users_join_keys)
qed

text \<open>
  C9. For a user that exists, \<open>GET /users/:id\<close> answers with that user and with
  \<open>pinned_tags\<close> the empty array, whatever the store holds in \<open>users_pinned_tags\<close>: an
  array has no property \<open>items\<close>, so the handler always falls back to \<open>[]\<close>.
\<close>

theorem get_users_id_pinned_tags:
  assumes "\<exists>u\<in>set (users st). u_id u = n"
  shows "\<exists>u. get_users_id n st = (Inr (u, JArray []), st) \<and> u \<in> set (users st) \<and> u_id u = n"
proof -
  from assms have "users_agg (\<lambda>r. u_id (fst r) = n) st \<noteq> []"
    by (simp add: users_agg_id)
  then obtain r rs where rows: "users_agg (\<lambda>r. u_id (fst r) = n) st = r # rs"
    by (cases "users_agg (\<lambda>r. u_id (fst r) = n) st") auto
  have "fst r \<in> fst ` set (users_agg (\<lambda>r. u_id (fst r) = n) st)"
    by (simp add: rows)
  then have "fst r \<in> fst ` set (filter (\<lambda>r. u_id (fst r) = n) (users_join st))"
    by (simp only: users_agg_keys)
  then have "u_id (fst r) = n" and "fst r \<in> fst ` set (users_join st)"
    by auto
  moreover have "get_users_id n st = (Inr (fst r, JArray []), st)"
    by (simp add: get_users_id_def rows array_member_items)
  ultimately show ?thesis
    by (auto simp only: users_join_keys)
qed

theorem get_users_id_pinned_tags_witness:
  "get_users_id ''1'' store_pinned = (Inr (user1, JArray []), store_pinned) \<and>
   fst (get_users store_pinned) = Inr {(user1, [''x''])}"
proof -
  have "\<exists>u\<in>set (users store_pinned). u_id u = ''1''"
    by (simp add: store_pinned_def store1_def user1_def)
  from get_users_id_pinned_tags [OF this] obtain u
    where u: "get_users_id ''1'' store_pinned = (Inr (u, JArray []), store_pinned)"
      and "u \<in> set (users store_pinned)"
    by blast
  then have "u = user1"
    by (simp add: store_pinned_def store1_def)
  moreover have "fst (get_users store_pinned) = Inr {(user1, [''x''])}"
    by (simp add: get_users_def users_agg_def users_join_def left_join_def pg_array_def
        store_pinned_def store1_def empty_store_def user1_def tag_x_def)
  ultimately show ?thesis
    using u by simp
qed


section \<open>Tags of an entity without tags\<close>

text \<open>
  C2, on the code. The idea of \<open>store1\<close> has no tag and the user has pinned none;
  both listings, as handlers and as requests, and the handler of \<open>GET /ideas/:id\<close>
  give them an array of one element: the left joins leave one row, \<open>ARRAY_AGG\<close> of
  one row is not \<open>NULL\<close> but the array that holds \<open>NULL\<close>, and \<open>COALESCE\<close> keeps it.
\<close>

theorem zero_tags_null_placeholder:
  "fst (get_ideas \<lparr>q_sort_by = None, q_filter = None, q_access = None\<rparr> store1)
     = Inr {(idea1, [''NULL''])} \<and>
   fst (get_ideas_id 1 store1) = Inr (Some (idea1, [''NULL''])) \<and>
   fst (get_users store1) = Inr {(user1, [''NULL''])} \<and>
   request_get_ideas None None None world1 = (Handled (Inr {(idea1, [''NULL''])}), world1) \<and>
   route_get_users world1 = (Handled (Inr {(user1, [''NULL''])}), world1)"
  by (simp add: request_get_ideas_handler route_get_users_def handler_def on_db_def
      get_ideas_def get_ideas_id_def get_users_def sort_by_sql_def filter_sql_def
      access_sql_def ideas_where_def ideas_agg_def ideas_join_def users_agg_def users_join_def
      left_join_def pg_array_def world1_def store1_def empty_store_def idea1_def user1_def)

section \<open>Rows that are not there\<close>

lemma sql_update_none: "filter P rs = [] \<Longrightarrow> sql_update P f rs = Inr (rs, [])"
  by (induction rs) (auto split: if_splits)

lemma feedbacks_vote_absent:
  "filter (\<lambda>r. f_id r = n) (feedbacks st) = [] \<Longrightarrow> feedbacks_vote f n st = (Inr (), st)"
  by (simp add: feedbacks_vote_def sql_update_none)

lemma ideas_vote_absent:
  "filter (\<lambda>i. i_id i = n) (ideas st) = [] \<Longrightarrow> ideas_vote f n st = (Inr None, st)"
  by (simp add: ideas_vote_def sql_update_none)

lemma tags_vote_absent:
  "filter (\<lambda>t. t_name t = nm) (tags st) = [] \<Longrightarrow>
   tags_vote f nm st = (Inl (HTTPException 404 ''Tag not found''), st)"
  by (simp add: tags_vote_def sql_update_none)


text \<open>
  C3, on the code. A request that names an idea, a feedback or a group by its id is
  answered 400 by the validator of the path parameter, whether the row is there or
  not: the schema wants a number and the path parameter is a string. The requests
  that name a tag or a user are answered 404 when the row is not there.
\<close>

theorem absent_row_requests:
  "request_post_feedbacks_up n w = (ValidationFailure, w) \<and>
   request_get_feedbacks_id n w = (ValidationFailure, w) \<and>
   request_delete_feedbacks_id n w = (ValidationFailure, w) \<and>
   request_get_ideas_id n w = (ValidationFailure, w) \<and>
   request_post_ideas_up n w = (ValidationFailure, w) \<and>
   request_delete_ideas_id n w = (ValidationFailure, w) \<and>
   request_get_groups_id n w = (ValidationFailure, w) \<and>
   request_put_groups_id n json w = (ValidationFailure, w) \<and>
   request_delete_groups_id n w = (ValidationFailure, w) \<and>
   request_post_ideas_file bucket n upload w = (ValidationFailure, w) \<and>
   request_delete_ideas_file bucket n upload w = (ValidationFailure, w) \<and>
   response_status (fst (request_post_feedbacks_up ''7'' world1)) = 400 \<and>
   response_status (fst (request_get_ideas_id ''7'' world1)) = 400 \<and>
   response_status (fst (request_get_tags_name ''y'' world1)) = 404 \<and>
   response_status (fst (request_post_tags_up ''y'' world1)) = 404 \<and>
   response_status (fst (request_get_users_id ''7'' world1)) = 404 \<and>
   response_status (fst (request_delete_users_id ''7'' world1)) = 404 \<and>
   response_status (fst (request_delete_user_tag ''7'' ''y'' world1)) = 404"
  by (simp add: request_post_feedbacks_up_def request_get_feedbacks_id_def
      request_delete_feedbacks_id_def request_get_ideas_id_def request_post_ideas_up_def
      request_delete_ideas_id_def request_get_groups_id_def request_put_groups_id_def
      request_delete_groups_id_def route_post_feedbacks_up_def route_get_feedbacks_id_def
      route_delete_feedbacks_id_def route_get_ideas_id_def route_post_ideas_up_def
      route_delete_ideas_id_def route_get_groups_id_def route_put_groups_id_def
      route_delete_groups_id_def request_post_ideas_file_def request_delete_ideas_file_def
      route_post_ideas_file_def route_delete_ideas_file_def id_param_refused
      request_get_tags_name_def request_post_tags_up_def request_get_users_id_def
      request_delete_users_id_def request_delete_user_tag_def route_get_tags_name_def
      route_post_tags_up_def route_get_users_id_def route_delete_users_id_def
      route_delete_user_tag_def zValidator_def handler_def on_db_def string_params_valid
      string_params_fields get_tags_name_def post_tags_up_def tags_vote_absent get_users_id_def
      users_agg_def users_join_def left_join_def delete_users_id_def delete_user_tag_def
      world1_def store1_def empty_store_def user1_def tag_x_def)

section \<open>Linking a tag twice\<close>

text \<open>
  The second \<open>POST /user/:user_id/:tag\<close> for a pair, after a first that succeeded,
  inserts no row and is answered 404.
\<close>

lemma post_user_tag_again:
  assumes "post_user_tag uid tg st = (Inr (), st1)"
  shows "post_user_tag uid tg st1 =
     (Inl (HTTPException 404 ''Either user or tag not found''), st1\<lparr>tags_id_seq := tags_id_seq st1 + 1\<rparr>)"
proof (cases "tg \<in> set (map t_name (tags st))")
  case True
  then obtain t ts where f: "filter (\<lambda>t. t_name t = tg) (tags st) = t # ts"
    by (cases "filter (\<lambda>t. t_name t = tg) (tags st)") (auto simp: filter_empty_conv)
  from assms True f have st1: "st1 = st\<lparr>tags_id_seq := tags_id_seq st + 1,
      users_pinned_tags := users_pinned_tags st @ [(uid, t_id t)]\<rparr>"
    by (auto simp: post_user_tag_def Let_def split: if_splits)
  show ?thesis
    using True f by (simp add: st1 post_user_tag_def Let_def)
next
  case False
  then have f: "filter (\<lambda>t. t_name t = tg) (tags st) = []"
    by (auto simp: filter_empty_conv)
  from assms False f have fresh: "tags_id_seq st \<notin> set (map t_id (tags st))"
    by (auto simp: post_user_tag_def Let_def split: if_splits)
  from assms False f fresh have st1: "st1 = st\<lparr>tags_id_seq := tags_id_seq st + 1,
      tags := tags st @ [\<lparr>t_id = tags_id_seq st, t_name = tg, t_upvotes = 0, t_downvotes = 0\<rparr>],
      users_pinned_tags := users_pinned_tags st @ [(uid, tags_id_seq st)]\<rparr>"
    by (auto simp: post_user_tag_def Let_def split: if_splits)
  show ?thesis
    using False f fresh by (simp add: st1 post_user_tag_def Let_def)
qed

text \<open>
  C1, on the code. In a store with the user and no tag, the first link of the user to
  \<open>x\<close> makes the tag and the pair; the second leaves both tables as they are and is
  answered 404, by the handler and so by the route. The handler that links an idea
  makes the pair the first time and fails on the primary key of \<open>ideas_tags\<close> the
  second time; its route refuses every request, the id being a string.
\<close>

theorem relink_is_an_error:
  "post_user_tag ''1'' ''x'' store_user =
     (Inr (), store_user\<lparr>tags := [tag_x], tags_id_seq := 2, users_pinned_tags := [(''1'', 1)]\<rparr>) \<and>
   post_user_tag ''1'' ''x'' (snd (post_user_tag ''1'' ''x'' store_user)) =
     (Inl (HTTPException 404 ''Either user or tag not found''),
      store_user\<lparr>tags := [tag_x], tags_id_seq := 3, users_pinned_tags := [(''1'', 1)]\<rparr>) \<and>
   post_ideas_tag 1 ''x'' store1 = (Inr (), store1\<lparr>ideas_tags := [(1, 1)]\<rparr>) \<and>
   post_ideas_tag 1 ''x'' (snd (post_ideas_tag 1 ''x'' store1)) =
     (Inl (PostgresError ''duplicate key value violates unique constraint ideas_tags_pkey''),
      store1\<lparr>ideas_tags := [(1, 1)]\<rparr>) \<and>
   status (fst (post_ideas_tag 1 ''x'' (snd (post_ideas_tag 1 ''x'' store1)))) = 500 \<and>
   fst (request_post_user_tag ''1'' ''x'' world_user) = Handled (Inr ()) \<and>
   fst (request_post_user_tag ''1'' ''x'' (snd (request_post_user_tag ''1'' ''x'' world_user))) =
     Handled (Inl (HTTPException 404 ''Either user or tag not found'')) \<and>
   response_status
     (fst (request_post_user_tag ''1'' ''x'' (snd (request_post_user_tag ''1'' ''x'' world_user)))) = 404 \<and>
   db (snd (request_post_user_tag ''1'' ''x'' (snd (request_post_user_tag ''1'' ''x'' world_user)))) =
     store_user\<lparr>tags := [tag_x], tags_id_seq := 3, users_pinned_tags := [(''1'', 1)]\<rparr> \<and>
   request_post_ideas_tag ''1'' ''x'' world1 = (ValidationFailure, world1)"
  by (simp add: post_user_tag_def post_ideas_tag_def Let_def store_user_def store1_def
      empty_store_def user1_def idea1_def tag_x_def request_post_user_tag_def
      route_post_user_tag_def request_post_ideas_tag_def route_post_ideas_tag_def zValidator_def
      handler_def on_db_def string_params_valid string_params_fields id_param_refused
      world_user_def world1_def)

section \<open>The tag upsert\<close>

lemma insert_tags_appends:
  "insert_tags ns tbl s = (Inr tbl', s') \<Longrightarrow>
   \<exists>news. tbl' = tbl @ news \<and>
     (\<forall>t\<in>set news. t_name t \<in> set ns \<and> t_name t \<notin> set (map t_name tbl)
        \<and> t_upvotes t = 0 \<and> t_downvotes t = 0)"
proof (induction ns arbitrary: tbl s)
  case Nil
  then show ?case by simp
next
  case (Cons n ns)
  show ?case
  proof (cases "n \<in> set (map t_name tbl)")
    case True
    with Cons.prems have "insert_tags ns tbl (s + 1) = (Inr tbl', s')" by simp
    from Cons.IH [OF this] show ?thesis by auto
  next
    case False
    let ?r = "\<lparr>t_id = s, t_name = n, t_upvotes = 0, t_downvotes = 0\<rparr>"
    from False Cons.prems have "insert_tags ns (tbl @ [?r]) (s + 1) = (Inr tbl', s')"
      by (simp split: if_splits)
    from Cons.IH [OF this] obtain news where
      n: "tbl' = (tbl @ [?r]) @ news"
      "\<forall>t\<in>set news. t_name t \<in> set ns \<and> t_name t \<notin> set (map t_name (tbl @ [?r]))
          \<and> t_upvotes t = 0 \<and> t_downvotes t = 0"
      by blast
    have "tbl' = tbl @ (?r # news)" using n(1) by simp
    moreover have "\<forall>t\<in>set (?r # news). t_name t \<in> set (n # ns) \<and> t_name t \<notin> set (map t_name tbl)
          \<and> t_upvotes t = 0 \<and> t_downvotes t = 0"
      using n(2) False by auto
    ultimately show ?thesis by blast
  qed
qed

lemma insert_idea_tags: "tags (snd (insert_idea b st)) = tags st"
  by (simp add: insert_idea_def Let_def)

lemma post_ideas_tags:
  "tags (snd (post_ideas b st)) = tags st \<or>
   (\<exists>s'. insert_tags (b_tags b) (tags st) (tags_id_seq st) = (Inr (tags (snd (post_ideas b st))), s'))"
proof (cases "b_tags b = []")
  case True
  then show ?thesis by (simp add: post_ideas_def)
next
  case False
  obtain r s where it: "insert_tags (b_tags b) (tags st) (tags_id_seq st) = (r, s)"
    by (cases "insert_tags (b_tags b) (tags st) (tags_id_seq st)")
  show ?thesis
  proof (cases r)
    case (Inl e)
    with False it show ?thesis by (simp add: post_ideas_def)
  next
    case (Inr tbl)
    let ?st1 = "st\<lparr>tags := tbl, tags_id_seq := s\<rparr>"
    obtain r2 st2 where ii: "insert_idea b ?st1 = (r2, st2)"
      by (cases "insert_idea b ?st1")
    have t2: "tags st2 = tbl"
      using insert_idea_tags [of b ?st1] ii by simp
    have "tags (snd (post_ideas b st)) = tbl"
      using False it Inr ii t2
      by (auto simp: post_ideas_def Let_def split: sum.splits)
    with it Inr show ?thesis by simp
  qed
qed

lemma post_ideas_appends:
  "\<exists>news. tags (snd (post_ideas b st)) = tags st @ news \<and>
     (\<forall>t\<in>set news. t_name t \<in> set (b_tags b) \<and> t_name t \<notin> set (map t_name (tags st))
        \<and> t_upvotes t = 0 \<and> t_downvotes t = 0)"
  using post_ideas_tags [of b st]
proof
  assume "tags (snd (post_ideas b st)) = tags st"
  then have "tags (snd (post_ideas b st)) = tags st @ []" by simp
  then show ?thesis by (intro exI [of _ "[]"]) simp
next
  assume "\<exists>s'. insert_tags (b_tags b) (tags st) (tags_id_seq st) = (Inr (tags (snd (post_ideas b st))), s')"
  then obtain s' where "insert_tags (b_tags b) (tags st) (tags_id_seq st) = (Inr (tags (snd (post_ideas b st))), s')"
    by blast
  from insert_tags_appends [OF this] show ?thesis .
qed

lemma post_user_tag_appends:
  "\<exists>news. tags (snd (post_user_tag uid tg st)) = tags st @ news \<and>
     (\<forall>t\<in>set news. t_name t \<in> set [tg] \<and> t_name t \<notin> set (map t_name (tags st))
        \<and> t_upvotes t = 0 \<and> t_downvotes t = 0)"
proof (cases "tags (snd (post_user_tag uid tg st)) = tags st")
  case True
  then show ?thesis by (intro exI [of _ "[]"]) simp
next
  case False
  then have "tg \<notin> set (map t_name (tags st)) \<and>
    tags (snd (post_user_tag uid tg st)) =
      tags st @ [\<lparr>t_id = tags_id_seq st, t_name = tg, t_upvotes = 0, t_downvotes = 0\<rparr>]"
    by (auto simp: post_user_tag_def Let_def split: if_splits option.splits)
  then show ?thesis
    by (intro exI [of _ "[\<lparr>t_id = tags_id_seq st, t_name = tg, t_upvotes = 0, t_downvotes = 0\<rparr>]"]) simp
qed

lemma appended_keeps:
  assumes "tbl' = tbl @ news"
    and "\<forall>t\<in>set news. t_name t \<in> set ns \<and> t_name t \<notin> set (map t_name tbl)
        \<and> t_upvotes t = 0 \<and> t_downvotes t = 0"
  shows "take (length tbl) tbl' = tbl"
    and "\<forall>t\<in>set (drop (length tbl) tbl'). t_name t \<in> set ns \<and> t_name t \<notin> set (map t_name tbl)
        \<and> t_upvotes t = 0 \<and> t_downvotes t = 0"
    and "\<forall>n\<in>set (map t_name tbl). filter (\<lambda>t. t_name t = n) tbl' = filter (\<lambda>t. t_name t = n) tbl"
proof -
  show "take (length tbl) tbl' = tbl" using assms(1) by simp
  show "\<forall>t\<in>set (drop (length tbl) tbl'). t_name t \<in> set ns \<and> t_name t \<notin> set (map t_name tbl)
        \<and> t_upvotes t = 0 \<and> t_downvotes t = 0"
    using assms by simp
  show "\<forall>n\<in>set (map t_name tbl). filter (\<lambda>t. t_name t = n) tbl' = filter (\<lambda>t. t_name t = n) tbl"
  proof
    fix n assume n: "n \<in> set (map t_name tbl)"
    have "filter (\<lambda>t. t_name t = n) news = []"
      using assms(2) n by (auto simp: filter_empty_conv)
    then show "filter (\<lambda>t. t_name t = n) tbl' = filter (\<lambda>t. t_name t = n) tbl"
      using assms(1) by simp
  qed
qed

text \<open>
  C7. The tag upsert of \<open>POST /ideas\<close> and of \<open>POST /user/:user_id/:tag\<close> only ever adds
  rows at the end of \<open>tags\<close>: the rows that were there keep their place, \<open>id\<close>, name
  and counters, whatever the call answers; a row that is added has a name of the call
  that no row had, and counters 0; and the rows of a name that existed are after the
  call the rows they were before it.
\<close>

theorem tag_upsert_keeps_rows:
  "take (length (tags st)) (tags (snd (post_ideas b st))) = tags st \<and>
   (\<forall>t\<in>set (drop (length (tags st)) (tags (snd (post_ideas b st)))).
      t_name t \<in> set (b_tags b) \<and> t_name t \<notin> set (map t_name (tags st))
        \<and> t_upvotes t = 0 \<and> t_downvotes t = 0) \<and>
   (\<forall>n\<in>set (map t_name (tags st)).
      filter (\<lambda>t. t_name t = n) (tags (snd (post_ideas b st))) = filter (\<lambda>t. t_name t = n) (tags st)) \<and>
   take (length (tags st)) (tags (snd (post_user_tag uid tg st))) = tags st \<and>
   (\<forall>t\<in>set (drop (length (tags st)) (tags (snd (post_user_tag uid tg st)))).
      t_name t \<in> set [tg] \<and> t_name t \<notin> set (map t_name (tags st))
        \<and> t_upvotes t = 0 \<and> t_downvotes t = 0) \<and>
   (\<forall>n\<in>set (map t_name (tags st)).
      filter (\<lambda>t. t_name t = n) (tags (snd (post_user_tag uid tg st))) = filter (\<lambda>t. t_name t = n) (tags st))"
proof -
  obtain news where a: "tags (snd (post_ideas b st)) = tags st @ news"
    "\<forall>t\<in>set news. t_name t \<in> set (b_tags b) \<and> t_name t \<notin> set (map t_name (tags st))
        \<and> t_upvotes t = 0 \<and> t_downvotes t = 0"
    using post_ideas_appends [of b st] by blast
  obtain news' where b: "tags (snd (post_user_tag uid tg st)) = tags st @ news'"
    "\<forall>t\<in>set news'. t_name t \<in> set [tg] \<and> t_name t \<notin> set (map t_name (tags st))
        \<and> t_upvotes t = 0 \<and> t_downvotes t = 0"
    using post_user_tag_appends [of uid tg st] by blast
  from appended_keeps [OF a] appended_keeps [OF b] show ?thesis
    by (intro conjI)
qed

theorem tag_upsert_keeps_rows_witness:
  "tags (snd (post_ideas body_xy store_voted)) =
     [tag_x\<lparr>t_upvotes := 3, t_downvotes := 1\<rparr>,
      \<lparr>t_id = 3, t_name = ''y'', t_upvotes = 0, t_downvotes = 0\<rparr>] \<and>
   filter (\<lambda>t. t_name t = ''x'') (tags (snd (post_ideas body_xy store_voted))) =
     [tag_x\<lparr>t_upvotes := 3, t_downvotes := 1\<rparr>] \<and>
   filter (\<lambda>t. t_name t = ''x'') (tags (snd (post_user_tag ''1'' ''x'' store_voted))) =
     [tag_x\<lparr>t_upvotes := 3, t_downvotes := 1\<rparr>] \<and>
   fst (post_ideas body_xy store_voted) =
     Inr (\<lparr>i_id = 2, i_title = ''T'', i_content = ''C'', i_user_id = ''1'', i_files_url = [],
           i_access = ''public'', i_upvotes = 0, i_downvotes = 0\<rparr>, [''x'', ''y''])"
proof -
  note d = store_voted_def store1_def empty_store_def tag_x_def idea1_def user1_def body_xy_def
  note k = tag_upsert_keeps_rows [of store_voted body_xy "''1''" "''x''"]
  have x: "''x'' \<in> set (map t_name (tags store_voted))"
    by (simp add: d)
  have e: "tags (snd (post_ideas body_xy store_voted)) =
     [tag_x\<lparr>t_upvotes := 3, t_downvotes := 1\<rparr>,
      \<lparr>t_id = 3, t_name = ''y'', t_upvotes = 0, t_downvotes = 0\<rparr>]"
    by (simp add: d post_ideas_def insert_idea_def Let_def)
  from k have "\<forall>n\<in>set (map t_name (tags store_voted)).
      filter (\<lambda>t. t_name t = n) (tags (snd (post_ideas body_xy store_voted)))
        = filter (\<lambda>t. t_name t = n) (tags store_voted)"
    by blast
  with x have f1: "filter (\<lambda>t. t_name t = ''x'') (tags (snd (post_ideas body_xy store_voted)))
        = filter (\<lambda>t. t_name t = ''x'') (tags store_voted)"
    by blast
  from k have "\<forall>n\<in>set (map t_name (tags store_voted)).
      filter (\<lambda>t. t_name t = n) (tags (snd (post_user_tag ''1'' ''x'' store_voted)))
        = filter (\<lambda>t. t_name t = n) (tags store_voted)"
    by blast
  with x have f2: "filter (\<lambda>t. t_name t = ''x'') (tags (snd (post_user_tag ''1'' ''x'' store_voted)))
        = filter (\<lambda>t. t_name t = ''x'') (tags store_voted)"
    by blast
  have g: "filter (\<lambda>t. t_name t = ''x'') (tags store_voted) = [tag_x\<lparr>t_upvotes := 3, t_downvotes := 1\<rparr>]"
    by (simp add: d)
  have h: "fst (post_ideas body_xy store_voted) =
     Inr (\<lparr>i_id = 2, i_title = ''T'', i_content = ''C'', i_user_id = ''1'', i_files_url = [],
           i_access = ''public'', i_upvotes = 0, i_downvotes = 0\<rparr>, [''x'', ''y''])"
    by (simp add: d post_ideas_def insert_idea_def Let_def)
  from e f1 f2 g h show ?thesis by simp
qed


section \<open>The access filter of \<open>GET /ideas\<close>\<close>

lemma group_by_filter_key:
  "group_by (filter (\<lambda>r. P (fst r)) xs) = filter (\<lambda>g. P (fst g)) (group_by xs)"
proof (induction xs rule: group_by.induct)
  case 1
  then show ?case by simp
next
  case (2 r rs)
  let ?rest = "filter (\<lambda>x. fst x \<noteq> fst r) rs"
  have ih: "group_by (filter (\<lambda>r. P (fst r)) ?rest) = filter (\<lambda>g. P (fst g)) (group_by ?rest)"
    by (rule 2)
  show ?case
  proof (cases "P (fst r)")
    case True
    have same: "filter (\<lambda>x. fst x = fst r) (filter (\<lambda>r. P (fst r)) rs) = filter (\<lambda>x. fst x = fst r) rs"
      using True by (induction rs) auto
    have comm: "filter (\<lambda>x. fst x \<noteq> fst r) (filter (\<lambda>r. P (fst r)) rs) = filter (\<lambda>r. P (fst r)) ?rest"
      by (induction rs) auto
    have "group_by (filter (\<lambda>r. P (fst r)) (r # rs)) = group_by (r # filter (\<lambda>r. P (fst r)) rs)"
      using True by simp
    also have "\<dots> = (fst r, snd r # map snd (filter (\<lambda>x. fst x = fst r) (filter (\<lambda>r. P (fst r)) rs)))
        # group_by (filter (\<lambda>x. fst x \<noteq> fst r) (filter (\<lambda>r. P (fst r)) rs))"
      by (simp only: group_by.simps)
    also have "\<dots> = (fst r, snd r # map snd (filter (\<lambda>x. fst x = fst r) rs))
        # filter (\<lambda>g. P (fst g)) (group_by ?rest)"
      by (simp only: same comm ih)
    also have "\<dots> = filter (\<lambda>g. P (fst g)) (group_by (r # rs))"
      using True by simp
    finally show ?thesis .
  next
    case False
    have eq: "filter (\<lambda>r. P (fst r)) rs = filter (\<lambda>r. P (fst r)) ?rest"
      using False by (induction rs) auto
    have "group_by (filter (\<lambda>r. P (fst r)) (r # rs)) = group_by (filter (\<lambda>r. P (fst r)) rs)"
      using False by simp
    also have "\<dots> = group_by (filter (\<lambda>r. P (fst r)) ?rest)"
      by (simp only: eq)
    also have "\<dots> = filter (\<lambda>g. P (fst g)) (group_by ?rest)"
      by (rule ih)
    also have "\<dots> = filter (\<lambda>g. P (fst g)) (group_by (r # rs))"
      using False by simp
    finally show ?thesis .
  qed
qed

lemma ideas_agg_filter_key:
  "ideas_agg (\<lambda>r. w r \<and> P (fst r)) st = filter (\<lambda>r. P (fst r)) (ideas_agg w st)"
proof -
  let ?agg = "\<lambda>g :: idea \<times> string option list. (fst g, coalesce (array_agg (snd g)) [])"
  have j: "filter (\<lambda>r. w r \<and> P (fst r)) (ideas_join st) = filter (\<lambda>r. P (fst r)) (filter w (ideas_join st))"
    by simp
  have "ideas_agg (\<lambda>r. w r \<and> P (fst r)) st
      = map ?agg (filter (\<lambda>g. P (fst g)) (group_by (filter w (ideas_join st))))"
    unfolding ideas_agg_def j group_by_filter_key ..
  also have "\<dots> = filter (\<lambda>r. P (fst r)) (map ?agg (group_by (filter w (ideas_join st))))"
    by (simp add: filter_map comp_def)
  finally show ?thesis
    by (simp only: ideas_agg_def)
qed

lemma ideas_where_access:
  "ideas_where fl (Some a) = (\<lambda>r. ideas_where fl None r \<and> (i_access (fst r) = a \<or> i_access (fst r) = ''public''))"
  by (rule ext) (simp add: ideas_where_def)

lemma ideas_agg_access:
  "ideas_agg (ideas_where fl (Some a)) st =
     filter (\<lambda>r. i_access (fst r) = a \<or> i_access (fst r) = ''public'') (ideas_agg (ideas_where fl None) st)"
  unfolding ideas_where_access
  by (rule ideas_agg_filter_key [where P = "\<lambda>i. i_access i = a \<or> i_access i = ''public''"])

lemma ideas_agg_all: "fst ` set (ideas_agg (ideas_where None None) st) = set (ideas st)"
proof -
  have "filter (ideas_where None None) (ideas_join st) = ideas_join st"
    by (simp add: ideas_where_def)
  then show ?thesis
    by (simp only: ideas_agg_keys ideas_join_keys)
qed


lemma syntax_error_at_Suc:
  "syntax_error_at (Suc 0) = PostgresError ''syntax error at or near $1''"
  "syntax_error_at (Suc (Suc 0)) = PostgresError ''syntax error at or near $2''"
  using syntax_error_at_1 syntax_error_at_2 by (simp_all add: numeral_2_eq_2)

lemma set_map_filter_key:
  assumes "\<And>r. fst (f r) = fst r"
  shows "set (map f (filter (\<lambda>r. P (fst r)) xs)) = {r \<in> set (map f xs). P (fst r)}"
  using assms by auto

text \<open>
  A listing without sort key, as a request. When \<open>access\<close> starts with \<open>private:\<close> or
  \<open>group:\<close> its rows are those of the request without \<open>access\<close> whose \<open>access\<close>
  column is that very string or \<open>public\<close>; for any other \<open>access\<close>, or none, they are
  all the rows of the request without \<open>access\<close>, which without a tag filter are the
  rows of every idea of the table.
\<close>

lemma unsorted_access_filter:
  "\<exists>rows all_rows.
     request_get_ideas None fl access w = (Handled (Inr rows), w) \<and>
     request_get_ideas None fl None w = (Handled (Inr all_rows), w) \<and>
     (case access of
        None \<Rightarrow> rows = all_rows
      | Some a \<Rightarrow>
          (if startsWith a ''private:'' \<or> startsWith a ''group:''
           then rows = {r \<in> all_rows. i_access (fst r) = a \<or> i_access (fst r) = ''public''}
           else rows = all_rows)) \<and>
     (\<not> truthy fl \<longrightarrow> fst ` all_rows = set (ideas (db w)))"
proof -
  let ?f = "\<lambda>r :: idea \<times> string option list. (fst r, pg_array (snd r))"
  let ?fl = "filter_sql \<lparr>q_sort_by = None, q_filter = fl, q_access = access\<rparr>"
  let ?ac = "access_sql \<lparr>q_sort_by = None, q_filter = fl, q_access = access\<rparr>"
  let ?rows = "set (map ?f (ideas_agg (ideas_where ?fl ?ac) (db w)))"
  let ?all = "set (map ?f (ideas_agg (ideas_where ?fl None) (db w)))"
  have 1: "request_get_ideas None fl access w = (Handled (Inr ?rows), w)"
    by (simp add: request_get_ideas_handler get_ideas_def sort_by_sql_def)
  have 2: "request_get_ideas None fl None w = (Handled (Inr ?all), w)"
    by (simp add: request_get_ideas_handler get_ideas_def sort_by_sql_def filter_sql_def
        access_sql_def)
  have k: "set (map ?f (ideas_agg (ideas_where ?fl (Some a)) (db w)))
      = {r \<in> ?all. i_access (fst r) = a \<or> i_access (fst r) = ''public''}" for a
    unfolding ideas_agg_access
    by (rule set_map_filter_key [where P = "\<lambda>i. i_access i = a \<or> i_access i = ''public''"]) simp
  have 3: "(case access of
        None \<Rightarrow> ?rows = ?all
      | Some a \<Rightarrow>
          (if startsWith a ''private:'' \<or> startsWith a ''group:''
           then ?rows = {r \<in> ?all. i_access (fst r) = a \<or> i_access (fst r) = ''public''}
           else ?rows = ?all))"
  proof (cases access)
    case None
    then show ?thesis by (simp add: access_sql_def)
  next
    case (Some a)
    with k [of a] show ?thesis by (simp add: access_sql_def)
  qed
  have "\<not> truthy fl \<longrightarrow> fst ` set (ideas_agg (ideas_where ?fl None) (db w)) = set (ideas (db w))"
    by (simp add: filter_sql_def ideas_agg_all)
  then have 4: "\<not> truthy fl \<longrightarrow> fst ` ?all = set (ideas (db w))"
    by (simp add: image_image)
  from 1 2 3 4 show ?thesis by blast
qed

text \<open>
  C5, on the code. With the sort key \<open>upvotes\<close>, the listing for
  \<open>access=private:42\<close> of three ideas, a public one, one of user 42 and one of user 99,
  is answered 500: the statement ends in \<open>ORDER BY i.$2\<close>. Without the sort key the
  same listing has the public idea and the idea of user 42, and the listing for
  \<open>access=public\<close> has all three.
\<close>

theorem sorted_access_listing_refused:
  "request_get_ideas (Some ''upvotes'') None (Some ''private:42'') world_access =
     (Handled (Inl (PostgresError ''syntax error at or near $2'')), world_access) \<and>
   response_status (fst (request_get_ideas (Some ''upvotes'') None (Some ''private:42'') world_access))
     = 500 \<and>
   request_get_ideas None None (Some ''private:42'') world_access =
     (Handled (Inr {(idea1, [''NULL'']), (idea2, [''NULL''])}), world_access) \<and>
   request_get_ideas None None (Some ''public'') world_access =
     (Handled (Inr {(idea1, [''NULL'']), (idea2, [''NULL'']), (idea3, [''NULL''])}), world_access)"
  by (simp add: request_get_ideas_handler get_ideas_def sort_by_sql_def filter_sql_def
      access_sql_def startsWith_def syntax_error_at_Suc ideas_where_def ideas_agg_def
      ideas_join_def left_join_def pg_array_def world_access_def store_access_def store1_def
      empty_store_def idea1_def idea2_def idea3_def)

section \<open>The sort key\<close>


section \<open>Validation comes first\<close>

text \<open>
  C8. A request whose query, path parameters or body its route's schema refuses is
  answered by the validator, with 400, and leaves the entity store and the object
  store as they were: no handler runs.
\<close>

theorem validation_before_store:
  "(\<not> ideas_query_schema query \<longrightarrow>
      route_get_ideas query w = (ValidationFailure, w)) \<and>
   (\<not> groups_query_schema query \<longrightarrow>
      route_get_groups query w = (ValidationFailure, w)) \<and>
   (\<not> ideasSchemaWithTags url json \<longrightarrow>
      route_post_ideas url json w = (ValidationFailure, w)) \<and>
   (\<not> feedbackSchema url json \<longrightarrow>
      route_post_feedbacks url json w = (ValidationFailure, w)) \<and>
   (\<not> userSchema email json \<longrightarrow>
      route_post_users email json w = (ValidationFailure, w) \<and>
      route_put_users_id email param json w = (ValidationFailure, w)) \<and>
   (\<not> groupsSchema json \<longrightarrow>
      route_post_groups json w = (ValidationFailure, w) \<and>
      route_put_groups_id param json w = (ValidationFailure, w)) \<and>
   (\<not> z_object [(''id'', z_number)] param \<longrightarrow>
      route_get_ideas_id param w = (ValidationFailure, w) \<and>
      route_post_ideas_up param w = (ValidationFailure, w) \<and>
      route_post_ideas_file bucket param upload w = (ValidationFailure, w) \<and>
      route_delete_ideas_file bucket param upload w = (ValidationFailure, w) \<and>
      route_post_feedbacks_up param w = (ValidationFailure, w) \<and>
      route_put_groups_id param json w = (ValidationFailure, w)) \<and>
   (\<not> z_object [(''id'', z_number), (''tag'', z_string)] param \<longrightarrow>
      route_post_ideas_tag param w = (ValidationFailure, w)) \<and>
   (\<not> z_object [(''id'', z_string)] param \<longrightarrow>
      route_get_users_id param w = (ValidationFailure, w) \<and>
      route_put_users_id email param json w = (ValidationFailure, w)) \<and>
   (\<not> z_object [(''user_id'', z_string), (''tag'', z_string)] param \<longrightarrow>
      route_post_user_tag param w = (ValidationFailure, w)) \<and>
   (\<not> z_object [(''id'', z_number), (''user_id'', z_string)] param \<longrightarrow>
      route_post_groups_user param w = (ValidationFailure, w)) \<and>
   (\<not> z_object [(''name'', z_string)] param \<longrightarrow>
      route_post_tags_up param w = (ValidationFailure, w)) \<and>
   response_status (ValidationFailure :: unit response) = 400"
  by (simp add: zValidator_def route_get_ideas_def route_get_groups_def route_post_ideas_def
      route_post_feedbacks_def route_post_users_def route_put_users_id_def route_post_groups_def
      route_put_groups_id_def route_get_ideas_id_def route_post_ideas_up_def
      route_post_ideas_file_def route_delete_ideas_file_def route_post_feedbacks_up_def
      route_post_ideas_tag_def route_get_users_id_def route_post_user_tag_def
      route_post_groups_user_def route_post_tags_up_def)

theorem validation_before_store_witness:
  "route_get_ideas (JObject [(''sort_by'', JNumber 1)]) world1 = (ValidationFailure, world1) \<and>
   route_get_groups (JObject [(''sort_by'', JNumber 1)]) world1 = (ValidationFailure, world1) \<and>
   route_post_ideas (\<lambda>s. True) (JObject [(''title'', JNumber 5)]) world1 = (ValidationFailure, world1) \<and>
   route_post_feedbacks (\<lambda>s. True) (JObject [(''title'', JNumber 5)]) world1 = (ValidationFailure, world1) \<and>
   route_post_users (\<lambda>s. True) (JObject [(''title'', JNumber 5)]) world1 = (ValidationFailure, world1) \<and>
   route_put_users_id (\<lambda>s. True) (JObject []) (JObject [(''title'', JNumber 5)]) world1 = (ValidationFailure, world1) \<and>
   route_post_groups (JObject [(''title'', JNumber 5)]) world1 = (ValidationFailure, world1) \<and>
   route_put_groups_id (JObject []) (JObject [(''title'', JNumber 5)]) world1 = (ValidationFailure, world1) \<and>
   route_get_ideas_id (JObject []) world1 = (ValidationFailure, world1) \<and>
   route_post_ideas_up (JObject []) world1 = (ValidationFailure, world1) \<and>
   route_post_ideas_file ''bucket'' (JObject []) (Some (''a.txt'', ''abc'')) world1 = (ValidationFailure, world1) \<and>
   route_delete_ideas_file ''bucket'' (JObject []) (Some (''a.txt'', ''abc'')) world1 = (ValidationFailure, world1) \<and>
   route_post_feedbacks_up (JObject []) world1 = (ValidationFailure, world1) \<and>
   route_post_ideas_tag (JObject []) world1 = (ValidationFailure, world1) \<and>
   route_get_users_id (JObject []) world1 = (ValidationFailure, world1) \<and>
   route_post_user_tag (JObject []) world1 = (ValidationFailure, world1) \<and>
   route_post_groups_user (JObject []) world1 = (ValidationFailure, world1) \<and>
   route_post_tags_up (JObject []) world1 = (ValidationFailure, world1)"
  using validation_before_store [where query = "JObject [(''sort_by'', JNumber 1)]"
      and json = "JObject [(''title'', JNumber 5)]" and param = "JObject []" and w = world1
      and url = "\<lambda>s. True"
      and email = "\<lambda>s. True" and bucket = "''bucket''" and upload = "Some (''a.txt'', ''abc'')"]
  by (simp add: ideas_query_schema_def groups_query_schema_def ideasSchemaWithTags_def
      feedbackSchema_def userSchema_def groupsSchema_def z_object_def z_optional_def z_string_def
      z_number_def z_default_def z_array_def z_nullable_def z_string_where_def js_prop_def)


end
